theory Spec2Isabelle
  imports Main "HOL-Library.Word"
begin

unbundle bit_operations_syntax

section \<open>The native engine, seen from the wrapper\<close>

text \<open>
  The wrapper (\<^verbatim>\<open>sqlite.hpp\<close>, \<^verbatim>\<open>sqlite.cpp\<close>) sits on the C interface of the
  engine. A native handle (\<^verbatim>\<open>sqlite3*\<close>, \<^verbatim>\<open>sqlite3_stmt*\<close>) is an address; the null
  pointer is address 0. A \<^verbatim>\<open>const char*\<close> or \<^verbatim>\<open>const void*\<close> handed over by the engine is
  \<open>None\<close> when it is null and \<open>Some bs\<close> when it addresses the bytes \<open>bs\<close>. C \<^verbatim>\<open>int\<close>
  and \<^verbatim>\<open>int64_t\<close> values are integers (the wrapper passes them through; its only
  arithmetic is a loop counter below a column count and a parameter position counted
  up from 1). A \<^verbatim>\<open>double\<close> is its 64-bit pattern, which the wrapper never looks into.
\<close>

type_synonym ptr = nat

abbreviation nullptr :: ptr where
  "nullptr \<equiv> 0"

type_synonym double = "64 word"

text \<open>\<^verbatim>\<open>struct Blob { const void* data; int size; }\<close>\<close>

record Blob =
  data :: "string option"
  size_blob :: int

text \<open>\<^verbatim>\<open>enum class DataType\<close>\<close>

datatype DataType = Integer | Float | Text | Blob | Null

text \<open>
  The engine is a black box with a state of type \<open>'s\<close>. Each native function the wrapper
  calls is a field of the record below: an accessor reads the state, a call that acts
  returns the new state with its result. An out-parameter (\<^verbatim>\<open>sqlite3** ppDb\<close>,
  \<^verbatim>\<open>sqlite3_stmt** ppStmt\<close>) is the pointer before the call as an argument and the pointer
  after the call beside the result code. Arguments that the wrapper always passes as the
  same constant (a null callback, a null tail pointer, the length -1, the transient
  destructor) are left out.
\<close>

record 's sqlite3_api =
  sqlite3_errcode :: "'s \<Rightarrow> ptr \<Rightarrow> int"
  sqlite3_extended_errcode :: "'s \<Rightarrow> ptr \<Rightarrow> int"
  sqlite3_errmsg :: "'s \<Rightarrow> ptr \<Rightarrow> string"
  sqlite3_error_offset :: "'s \<Rightarrow> ptr \<Rightarrow> int"
  sqlite3_errstr :: "int \<Rightarrow> string"
  sqlite3_threadsafe :: "'s \<Rightarrow> int"
  sqlite3_config :: "'s \<Rightarrow> int \<Rightarrow> int \<times> 's"
  sqlite3_open_v2 :: "'s \<Rightarrow> string \<Rightarrow> ptr \<Rightarrow> int \<Rightarrow> (int \<times> ptr) \<times> 's"
  sqlite3_close :: "'s \<Rightarrow> ptr \<Rightarrow> int \<times> 's"
  sqlite3_exec :: "'s \<Rightarrow> ptr \<Rightarrow> string \<Rightarrow> int \<times> 's"
  sqlite3_prepare_v3 :: "'s \<Rightarrow> ptr \<Rightarrow> string \<Rightarrow> int \<Rightarrow> ptr \<Rightarrow> (int \<times> ptr) \<times> 's"
  sqlite3_finalize :: "'s \<Rightarrow> ptr \<Rightarrow> int \<times> 's"
  sqlite3_db_handle :: "'s \<Rightarrow> ptr \<Rightarrow> ptr"
  sqlite3_step :: "'s \<Rightarrow> ptr \<Rightarrow> int \<times> 's"
  sqlite3_reset :: "'s \<Rightarrow> ptr \<Rightarrow> int \<times> 's"
  sqlite3_clear_bindings :: "'s \<Rightarrow> ptr \<Rightarrow> int \<times> 's"
  sqlite3_bind_parameter_index :: "'s \<Rightarrow> ptr \<Rightarrow> string \<Rightarrow> int"
  sqlite3_bind_parameter_name :: "'s \<Rightarrow> ptr \<Rightarrow> int \<Rightarrow> string option"
  sqlite3_bind_int :: "'s \<Rightarrow> ptr \<Rightarrow> int \<Rightarrow> int \<Rightarrow> int \<times> 's"
  sqlite3_bind_int64 :: "'s \<Rightarrow> ptr \<Rightarrow> int \<Rightarrow> int \<Rightarrow> int \<times> 's"
  sqlite3_bind_double :: "'s \<Rightarrow> ptr \<Rightarrow> int \<Rightarrow> double \<Rightarrow> int \<times> 's"
  sqlite3_bind_text :: "'s \<Rightarrow> ptr \<Rightarrow> int \<Rightarrow> string \<Rightarrow> int \<Rightarrow> int \<times> 's"
  sqlite3_bind_blob :: "'s \<Rightarrow> ptr \<Rightarrow> int \<Rightarrow> string option \<Rightarrow> int \<Rightarrow> int \<times> 's"
  sqlite3_column_count :: "'s \<Rightarrow> ptr \<Rightarrow> int"
  sqlite3_column_name :: "'s \<Rightarrow> ptr \<Rightarrow> int \<Rightarrow> string option"
  sqlite3_column_type :: "'s \<Rightarrow> ptr \<Rightarrow> int \<Rightarrow> int"
  sqlite3_column_decltype :: "'s \<Rightarrow> ptr \<Rightarrow> int \<Rightarrow> string option"
  sqlite3_column_origin_name :: "'s \<Rightarrow> ptr \<Rightarrow> int \<Rightarrow> string option"
  sqlite3_column_table_name :: "'s \<Rightarrow> ptr \<Rightarrow> int \<Rightarrow> string option"
  sqlite3_column_database_name :: "'s \<Rightarrow> ptr \<Rightarrow> int \<Rightarrow> string option"
  sqlite3_column_int :: "'s \<Rightarrow> ptr \<Rightarrow> int \<Rightarrow> int"
  sqlite3_column_int64 :: "'s \<Rightarrow> ptr \<Rightarrow> int \<Rightarrow> int"
  sqlite3_column_double :: "'s \<Rightarrow> ptr \<Rightarrow> int \<Rightarrow> double"
  sqlite3_column_text :: "'s \<Rightarrow> ptr \<Rightarrow> int \<Rightarrow> string option \<times> 's"
  sqlite3_column_blob :: "'s \<Rightarrow> ptr \<Rightarrow> int \<Rightarrow> string option \<times> 's"
  sqlite3_column_bytes :: "'s \<Rightarrow> ptr \<Rightarrow> int \<Rightarrow> int"

text \<open>
  The world a wrapper operation runs in: the engine's state, and the log of the native
  functions called so far, each with the handle it was called on (the null pointer for a
  function that takes no handle). The log is what "before any native call" is read from.
\<close>

record 's world =
  engine :: 's
  trace :: "(string \<times> ptr) list"

definition query :: "string \<Rightarrow> ptr \<Rightarrow> ('s \<Rightarrow> 'a) \<Rightarrow> 's world \<Rightarrow> 'a \<times> 's world" where
  "query name h f w = (f (engine w), w\<lparr>trace := trace w @ [(name, h)]\<rparr>)"

definition invoke :: "string \<Rightarrow> ptr \<Rightarrow> ('s \<Rightarrow> 'a \<times> 's) \<Rightarrow> 's world \<Rightarrow> 'a \<times> 's world" where
  "invoke name h f w =
     (case f (engine w) of (r, e') \<Rightarrow> (r, w\<lparr>engine := e', trace := trace w @ [(name, h)]\<rparr>))"

subsection \<open>Constants of the engine's header\<close>

text \<open>
  The values are those of \<^verbatim>\<open>sqlite3.h\<close>, which is not part of the repository. The
  wrapper compares result codes with them and hands the others to the engine.
\<close>

definition SQLITE_OK :: int where "SQLITE_OK = 0"
definition SQLITE_BUSY :: int where "SQLITE_BUSY = 5"
definition SQLITE_MISUSE :: int where "SQLITE_MISUSE = 21"
definition SQLITE_ROW :: int where "SQLITE_ROW = 100"
definition SQLITE_DONE :: int where "SQLITE_DONE = 101"

definition SQLITE_INTEGER :: int where "SQLITE_INTEGER = 1"
definition SQLITE_FLOAT :: int where "SQLITE_FLOAT = 2"
definition SQLITE_TEXT :: int where "SQLITE_TEXT = 3"
definition SQLITE_BLOB :: int where "SQLITE_BLOB = 4"
definition SQLITE_NULL :: int where "SQLITE_NULL = 5"

definition SQLITE_CONFIG_SERIALIZED :: int where "SQLITE_CONFIG_SERIALIZED = 3"
definition SQLITE_PREPARE_PERSISTENT :: int where "SQLITE_PREPARE_PERSISTENT = 1"

definition SQLITE_OPEN_READONLY :: int where "SQLITE_OPEN_READONLY = 1"
definition SQLITE_OPEN_READWRITE :: int where "SQLITE_OPEN_READWRITE = 2"
definition SQLITE_OPEN_CREATE :: int where "SQLITE_OPEN_CREATE = 4"
definition SQLITE_OPEN_URI :: int where "SQLITE_OPEN_URI = 64"
definition SQLITE_OPEN_MEMORY :: int where "SQLITE_OPEN_MEMORY = 128"
definition SQLITE_OPEN_NOMUTEX :: int where "SQLITE_OPEN_NOMUTEX = 32768"
definition SQLITE_OPEN_FULLMUTEX :: int where "SQLITE_OPEN_FULLMUTEX = 65536"
definition SQLITE_OPEN_SHAREDCACHE :: int where "SQLITE_OPEN_SHAREDCACHE = 131072"
definition SQLITE_OPEN_PRIVATECACHE :: int where "SQLITE_OPEN_PRIVATECACHE = 262144"
definition SQLITE_OPEN_NOFOLLOW :: int where "SQLITE_OPEN_NOFOLLOW = 16777216"

section \<open>Error taxonomy\<close>

text \<open>
  \<^verbatim>\<open>std::to_string(int)\<close>: the decimal digits, with a minus sign for a negative number.
\<close>

definition digit_char :: "nat \<Rightarrow> char" where
  "digit_char d = ''0123456789'' ! d"

function to_string_nat :: "nat \<Rightarrow> string" where
  "to_string_nat n = (if n < 10 then [digit_char n] else to_string_nat (n div 10) @ [digit_char (n mod 10)])"
  by pat_completeness auto
termination
  by (relation "measure (\<lambda>n. n)") auto

definition std_to_string :: "int \<Rightarrow> string" where
  "std_to_string i = (if i < 0 then CHR ''-'' # to_string_nat (nat (- i)) else to_string_nat (nat i))"

text \<open>
  \<^verbatim>\<open>class Error : public std::runtime_error\<close>: the \<^verbatim>\<open>what()\<close> string given to the base
  class and the four public members. \<open>Error_ctor\<close> is the constructor
  (\<^verbatim>\<open>sqlite.hpp\<close>, lines 17-20).
\<close>

record error_info =
  what :: string
  message :: string
  sqlite_errmsg :: string
  code :: int
  extended_code :: int

definition Error_ctor :: "string \<Rightarrow> string \<Rightarrow> int \<Rightarrow> int \<Rightarrow> error_info" where
  "Error_ctor msg errmsg c ec =
     \<lparr> what = (if msg = [] then [] else msg @ '', '')
                @ ''SQLite error ('' @ std_to_string c @ '','' @ std_to_string ec @ ''): '' @ errmsg,
       message = msg, sqlite_errmsg = errmsg, code = c, extended_code = ec \<rparr>"

text \<open>
  What an operation can throw. The first five are the wrapper's own classes:
  \<^verbatim>\<open>SyntaxError\<close> adds the SQL text and the offset to the base class's members,
  \<^verbatim>\<open>BusyError\<close> and \<^verbatim>\<open>MisuseError\<close> inherit the base constructor, \<^verbatim>\<open>OtherError\<close> is
  a \<^verbatim>\<open>std::runtime_error\<close> with the message alone. The next two are what
  \<^verbatim>\<open>std::string(const char*, size_t)\<close> does outside the engine's contract:
  \<^verbatim>\<open>std::length_error\<close> for a negative \<^verbatim>\<open>int\<close> length (a huge \<^verbatim>\<open>size_t\<close>), and a read
  past the end of the buffer. The last is not an exception either: the program reads a
  statement that the engine has already destroyed, its behaviour is undefined from there
  on, and none of the wrapper's errors is thrown.
\<close>

datatype exn =
    Error error_info
  | SyntaxError error_info string int
  | BusyError error_info
  | MisuseError error_info
  | OtherError string
  | StdLengthError
  | BufferOverread
  | UseAfterFree

text \<open>Spec: the wording of the message format in section 4.1, to compare with the constructor.\<close>

definition spec_message_format :: "string \<Rightarrow> int \<Rightarrow> int \<Rightarrow> string \<Rightarrow> string" where
  "spec_message_format ctx c ec engine_message =
     (if ctx \<noteq> [] then
        ctx @ '', SQLite error ('' @ std_to_string c @ '','' @ std_to_string ec @ ''): '' @ engine_message
      else
        ''SQLite error ('' @ std_to_string c @ '','' @ std_to_string ec @ ''): '' @ engine_message)"

text \<open>
  \<^verbatim>\<open>throwSQLiteError\<close> (\<^verbatim>\<open>sqlite.cpp\<close>, lines 23-39). It always throws, so the model
  returns the exception thrown, and the world after the four queries. The default
  argument \<^verbatim>\<open>sql = ""\<close> is the empty string.
\<close>

definition throwSQLiteError :: "'s sqlite3_api \<Rightarrow> ptr \<Rightarrow> string \<Rightarrow> string \<Rightarrow> 's world \<Rightarrow> exn \<times> 's world" where
  "throwSQLiteError api db msg sql w0 =
     (case query ''sqlite3_errcode'' db (\<lambda>e. sqlite3_errcode api e db) w0 of (c, w1) \<Rightarrow>
      case query ''sqlite3_extended_errcode'' db (\<lambda>e. sqlite3_extended_errcode api e db) w1 of (ec, w2) \<Rightarrow>
      case query ''sqlite3_errmsg'' db (\<lambda>e. sqlite3_errmsg api e db) w2 of (errmsg, w3) \<Rightarrow>
      case (if sql = [] then (- 1, w3)
            else query ''sqlite3_error_offset'' db (\<lambda>e. sqlite3_error_offset api e db) w3) of (offset, w4) \<Rightarrow>
      if offset > - 1 then (SyntaxError (Error_ctor msg errmsg c ec) sql offset, w4)
      else if c = SQLITE_BUSY then (BusyError (Error_ctor msg errmsg c ec), w4)
      else if c = SQLITE_MISUSE then (MisuseError (Error_ctor msg errmsg c ec), w4)
      else (Error (Error_ctor msg errmsg c ec), w4))"

section \<open>Connection\<close>

text \<open>
  \<^verbatim>\<open>enum class OpenFlags\<close>: a bit mask over \<^verbatim>\<open>int\<close> (the flags are combined with the
  overloaded \<^verbatim>\<open>operator|\<close>).
\<close>

definition OpenFlags_None :: int where "OpenFlags_None = 0"
definition OpenFlags_ReadOnly :: int where "OpenFlags_ReadOnly = push_bit 0 1"
definition OpenFlags_ReadWrite :: int where "OpenFlags_ReadWrite = push_bit 1 1"
definition OpenFlags_Create :: int where "OpenFlags_Create = push_bit 2 1"
definition OpenFlags_URI :: int where "OpenFlags_URI = push_bit 3 1"
definition OpenFlags_Memory :: int where "OpenFlags_Memory = push_bit 4 1"
definition OpenFlags_NoMutex :: int where "OpenFlags_NoMutex = push_bit 5 1"
definition OpenFlags_FullMutex :: int where "OpenFlags_FullMutex = push_bit 6 1"
definition OpenFlags_SharedCache :: int where "OpenFlags_SharedCache = push_bit 7 1"
definition OpenFlags_PrivateCache :: int where "OpenFlags_PrivateCache = push_bit 8 1"
definition OpenFlags_NoFollow :: int where "OpenFlags_NoFollow = push_bit 9 1"

text \<open>\<^verbatim>\<open>SQLite::toSQLiteOpenFlags\<close> (\<^verbatim>\<open>sqlite.cpp\<close>, lines 79-94).\<close>

definition toSQLiteOpenFlags :: "int \<Rightarrow> int" where
  "toSQLiteOpenFlags flags =
     (let f0 = 0;
          f1 = (if flags AND OpenFlags_ReadOnly \<noteq> 0 then f0 OR SQLITE_OPEN_READONLY else f0);
          f2 = (if flags AND OpenFlags_ReadWrite \<noteq> 0 then f1 OR SQLITE_OPEN_READWRITE else f1);
          f3 = (if flags AND OpenFlags_Create \<noteq> 0 then f2 OR SQLITE_OPEN_CREATE else f2);
          f4 = (if flags AND OpenFlags_URI \<noteq> 0 then f3 OR SQLITE_OPEN_URI else f3);
          f5 = (if flags AND OpenFlags_Memory \<noteq> 0 then f4 OR SQLITE_OPEN_MEMORY else f4);
          f6 = (if flags AND OpenFlags_NoMutex \<noteq> 0 then f5 OR SQLITE_OPEN_NOMUTEX else f5);
          f7 = (if flags AND OpenFlags_FullMutex \<noteq> 0 then f6 OR SQLITE_OPEN_FULLMUTEX else f6);
          f8 = (if flags AND OpenFlags_SharedCache \<noteq> 0 then f7 OR SQLITE_OPEN_SHAREDCACHE else f7);
          f9 = (if flags AND OpenFlags_PrivateCache \<noteq> 0 then f8 OR SQLITE_OPEN_PRIVATECACHE else f8)
      in if flags AND OpenFlags_NoFollow \<noteq> 0 then f9 OR SQLITE_OPEN_NOFOLLOW else f9)"

text \<open>
  \<^verbatim>\<open>class SQLite\<close> has one data member, \<^verbatim>\<open>struct sqlite3* db = nullptr\<close>. A member
  function that is not \<^verbatim>\<open>const\<close> returns the object after the call beside its result,
  also when it throws: what it assigned before the throw stays assigned.
\<close>

record SQLite =
  db :: ptr

definition SQLite_default_ctor :: SQLite where
  "SQLite_default_ctor = \<lparr> db = nullptr \<rparr>"

definition SQLite_ensure :: "SQLite \<Rightarrow> exn + unit" where
  "SQLite_ensure c =
     (if db c = nullptr then Inl (OtherError ''SQLite database connection not initialized'') else Inr ())"

definition SQLite_operator_bool :: "SQLite \<Rightarrow> bool" where
  "SQLite_operator_bool c = (db c \<noteq> nullptr)"

definition isThreadsafe :: "'s sqlite3_api \<Rightarrow> 's world \<Rightarrow> bool \<times> 's world" where
  "isThreadsafe api w =
     (case query ''sqlite3_threadsafe'' nullptr (sqlite3_threadsafe api) w of (r, w1) \<Rightarrow> (r \<noteq> 0, w1))"

text \<open>
  \<^verbatim>\<open>SQLite::configureSerialized\<close> returns a \<^verbatim>\<open>std::unique_ptr<Error>\<close>: \<open>None\<close> is the null
  pointer, \<open>Some\<close> the error object made from the result code.
\<close>

definition configureSerialized :: "'s sqlite3_api \<Rightarrow> 's world \<Rightarrow> error_info option \<times> 's world" where
  "configureSerialized api w =
     (case invoke ''sqlite3_config'' nullptr (\<lambda>e. sqlite3_config api e SQLITE_CONFIG_SERIALIZED) w of (result, w1) \<Rightarrow>
      if result \<noteq> SQLITE_OK then
        (case query ''sqlite3_errstr'' nullptr (\<lambda>e. sqlite3_errstr api result) w1 of (errstr, w2) \<Rightarrow>
         (Some (Error_ctor ''failed to configure SQLite for serialized threading mode'' errstr result result), w2))
      else (None, w1))"

definition SQLite_open :: "'s sqlite3_api \<Rightarrow> SQLite \<Rightarrow> string \<Rightarrow> int \<Rightarrow> 's world \<Rightarrow> (exn + unit) \<times> SQLite \<times> 's world" where
  "SQLite_open api c dbName flags w =
     (let sqliteFlags = toSQLiteOpenFlags flags in
      case invoke ''sqlite3_open_v2'' (db c) (\<lambda>e. sqlite3_open_v2 api e dbName (db c) sqliteFlags) w of ((rc, p), w1) \<Rightarrow>
      let c1 = c\<lparr>db := p\<rparr> in
      if rc \<noteq> SQLITE_OK then
        (case throwSQLiteError api (db c1) ''failed to open database'' [] w1 of (e, w2) \<Rightarrow> (Inl e, c1, w2))
      else (Inr (), c1, w1))"

definition SQLite_close :: "'s sqlite3_api \<Rightarrow> SQLite \<Rightarrow> 's world \<Rightarrow> (exn + unit) \<times> SQLite \<times> 's world" where
  "SQLite_close api c w =
     (if db c \<noteq> nullptr then
        (case invoke ''sqlite3_close'' (db c) (\<lambda>e. sqlite3_close api e (db c)) w of (rc, w1) \<Rightarrow>
         if rc \<noteq> SQLITE_OK then
           (case throwSQLiteError api (db c) ''failed to close connection'' [] w1 of (e, w2) \<Rightarrow> (Inl e, c, w2))
         else (Inr (), c\<lparr>db := nullptr\<rparr>, w1))
      else (Inr (), c, w))"


text \<open>
  A destructor and the move operations are \<^verbatim>\<open>noexcept\<close> (the destructor implicitly):
  an exception that leaves one of them calls \<^verbatim>\<open>std::terminate\<close>, which ends the
  program. \<open>Undefined\<close> is undefined behaviour inside the function.
\<close>

datatype 'a noexcept = Completed 'a | Terminate exn | Undefined

definition SQLite_dtor :: "'s sqlite3_api \<Rightarrow> SQLite \<Rightarrow> 's world \<Rightarrow> unit noexcept \<times> 's world" where
  "SQLite_dtor api c w =
     (case SQLite_close api c w of
        (Inl e, c1, w1) \<Rightarrow> (Terminate e, w1)
      | (Inr u, c1, w1) \<Rightarrow> (Completed (), w1))"

text \<open>
  \<^verbatim>\<open>SQLite(SQLite&& other)\<close>: the new object and \<^verbatim>\<open>other\<close> after the move.
\<close>

definition SQLite_move_ctor :: "SQLite \<Rightarrow> SQLite \<times> SQLite" where
  "SQLite_move_ctor other = (\<lparr> db = db other \<rparr>, other\<lparr>db := nullptr\<rparr>)"

text \<open>
  \<^verbatim>\<open>operator=(SQLite&& other)\<close> for two distinct objects, \<^verbatim>\<open>this\<close> and \<^verbatim>\<open>other\<close>; the
  result holds both after the assignment. (Assigning an object to itself leaves it as it
  is: the guard \<^verbatim>\<open>this != &other\<close> skips the body.)
\<close>

definition SQLite_move_assign :: "'s sqlite3_api \<Rightarrow> SQLite \<Rightarrow> SQLite \<Rightarrow> 's world \<Rightarrow> (SQLite \<times> SQLite) noexcept \<times> 's world" where
  "SQLite_move_assign api this other w =
     (case SQLite_close api this w of
        (Inl e, this1, w1) \<Rightarrow> (Terminate e, w1)
      | (Inr u, this1, w1) \<Rightarrow> (Completed (this1\<lparr>db := db other\<rparr>, other\<lparr>db := nullptr\<rparr>), w1))"

definition SQLite_exec :: "'s sqlite3_api \<Rightarrow> SQLite \<Rightarrow> string \<Rightarrow> 's world \<Rightarrow> (exn + unit) \<times> SQLite \<times> 's world" where
  "SQLite_exec api c sql w =
     (case SQLite_ensure c of
        Inl e \<Rightarrow> (Inl e, c, w)
      | Inr u \<Rightarrow>
          (case invoke ''sqlite3_exec'' (db c) (\<lambda>e. sqlite3_exec api e (db c) sql) w of (result, w1) \<Rightarrow>
           if result \<noteq> SQLITE_OK then
             (case throwSQLiteError api (db c) ''failed to execute SQL query'' sql w1 of (e, w2) \<Rightarrow> (Inl e, c, w2))
           else (Inr (), c, w1)))"

definition SQLite_execute :: "'s sqlite3_api \<Rightarrow> SQLite \<Rightarrow> string \<Rightarrow> 's world \<Rightarrow> (exn + unit) \<times> SQLite \<times> 's world" where
  "SQLite_execute api c sql w = SQLite_exec api c sql w"

section \<open>Statement\<close>

text \<open>
  \<^verbatim>\<open>class Statement\<close>: the native handle \<^verbatim>\<open>stmt\<close> (null by default) and the
  \<^verbatim>\<open>std::unordered_map<std::string, int> columnIndices\<close> (empty by default).
\<close>

record Statement =
  stmt :: ptr
  columnIndices :: "string \<rightharpoonup> int"

definition Statement_default_ctor :: Statement where
  "Statement_default_ctor = \<lparr> stmt = nullptr, columnIndices = Map.empty \<rparr>"

definition Statement_ensure :: "Statement \<Rightarrow> exn + unit" where
  "Statement_ensure s =
     (if stmt s = nullptr then Inl (OtherError ''SQLite statement not initialized'') else Inr ())"

definition Statement_operator_bool :: "Statement \<Rightarrow> bool" where
  "Statement_operator_bool s = (stmt s \<noteq> nullptr)"

text \<open>
  \<^verbatim>\<open>Statement::initializeColumnIndices\<close> (\<^verbatim>\<open>sqlite.cpp\<close>, lines 132-140): the loop
  \<^verbatim>\<open>for (int i = 0; i < columnCount; ++i)\<close> is the recursion on \<open>i\<close>;
  \<^verbatim>\<open>columnIndices[columnName] = i\<close> inserts or overwrites.
\<close>

function initializeColumnIndices_loop ::
  "'s sqlite3_api \<Rightarrow> Statement \<Rightarrow> int \<Rightarrow> int \<Rightarrow> 's world \<Rightarrow> Statement \<times> 's world" where
  "initializeColumnIndices_loop api s columnCount i w =
     (if i < columnCount then
        initializeColumnIndices_loop api
          (case fst (query ''sqlite3_column_name'' (stmt s) (\<lambda>e. sqlite3_column_name api e (stmt s) i) w) of
             Some columnName \<Rightarrow> s\<lparr>columnIndices := (columnIndices s)(columnName \<mapsto> i)\<rparr>
           | None \<Rightarrow> s)
          columnCount (i + 1)
          (snd (query ''sqlite3_column_name'' (stmt s) (\<lambda>e. sqlite3_column_name api e (stmt s) i) w))
      else (s, w))"
  by pat_completeness auto
termination
  by (relation "measure (\<lambda>(api, s, columnCount, i, w). nat (columnCount - i))") auto

definition initializeColumnIndices :: "'s sqlite3_api \<Rightarrow> Statement \<Rightarrow> 's world \<Rightarrow> Statement \<times> 's world" where
  "initializeColumnIndices api s w =
     (case query ''sqlite3_column_count'' (stmt s) (\<lambda>e. sqlite3_column_count api e (stmt s)) w of (columnCount, w1) \<Rightarrow>
      initializeColumnIndices_loop api s columnCount 0 w1)"

text \<open>
  The constructor \<^verbatim>\<open>Statement(sqlite3* db, const std::string& sql, bool persistent)\<close>
  (\<^verbatim>\<open>sqlite.cpp\<close>, lines 96-102); when it throws there is no object.
\<close>

definition Statement_ctor :: "'s sqlite3_api \<Rightarrow> ptr \<Rightarrow> string \<Rightarrow> bool \<Rightarrow> 's world \<Rightarrow> (exn + Statement) \<times> 's world" where
  "Statement_ctor api dbh sql persistent w =
     (let prepareFlags = (if persistent then SQLITE_PREPARE_PERSISTENT else 0) in
      case invoke ''sqlite3_prepare_v3'' dbh (\<lambda>e. sqlite3_prepare_v3 api e dbh sql prepareFlags nullptr) w of ((rc, p), w1) \<Rightarrow>
      if rc \<noteq> SQLITE_OK then
        (case throwSQLiteError api dbh ''failed to prepare statement'' sql w1 of (e, w2) \<Rightarrow> (Inl e, w2))
      else
        (case initializeColumnIndices api \<lparr> stmt = p, columnIndices = Map.empty \<rparr> w1 of (s, w2) \<Rightarrow> (Inr s, w2)))"

definition SQLite_prepare :: "'s sqlite3_api \<Rightarrow> SQLite \<Rightarrow> string \<Rightarrow> bool \<Rightarrow> 's world \<Rightarrow> (exn + Statement) \<times> SQLite \<times> 's world" where
  "SQLite_prepare api c sql persistent w =
     (case SQLite_ensure c of
        Inl e \<Rightarrow> (Inl e, c, w)
      | Inr u \<Rightarrow> (case Statement_ctor api (db c) sql persistent w of (r, w1) \<Rightarrow> (r, c, w1)))"

text \<open>
  \<^verbatim>\<open>Statement::finalize\<close> (\<^verbatim>\<open>sqlite.cpp\<close>, lines 123-130). The engine's
  \<^verbatim>\<open>sqlite3_finalize\<close> destroys the statement whatever result code it returns (the code
  is the error of the statement's last evaluation). In the failure branch the wrapper
  then calls \<^verbatim>\<open>sqlite3_db_handle(stmt)\<close> on the destroyed statement: that call is logged,
  its result is not defined, and the branch ends as \<open>UseAfterFree\<close> with the member
  \<^verbatim>\<open>stmt\<close> still holding the dangling pointer. No classification takes place.
\<close>

definition Statement_finalize :: "'s sqlite3_api \<Rightarrow> Statement \<Rightarrow> 's world \<Rightarrow> (exn + unit) \<times> Statement \<times> 's world" where
  "Statement_finalize api s w =
     (if stmt s \<noteq> nullptr then
        (case invoke ''sqlite3_finalize'' (stmt s) (\<lambda>e. sqlite3_finalize api e (stmt s)) w of (rc, w1) \<Rightarrow>
         if rc \<noteq> SQLITE_OK then
           (Inl UseAfterFree, s, w1\<lparr>trace := trace w1 @ [(''sqlite3_db_handle'', stmt s)]\<rparr>)
         else (Inr (), s\<lparr>stmt := nullptr\<rparr>, w1))
      else (Inr (), s, w))"

text \<open>
  The destructor and the move assignment call \<^verbatim>\<open>finalize()\<close>; its undefined branch is
  undefined for them too.
\<close>

definition Statement_dtor :: "'s sqlite3_api \<Rightarrow> Statement \<Rightarrow> 's world \<Rightarrow> unit noexcept \<times> 's world" where
  "Statement_dtor api s w =
     (case Statement_finalize api s w of
        (Inl e, s1, w1) \<Rightarrow> (if e = UseAfterFree then Undefined else Terminate e, w1)
      | (Inr u, s1, w1) \<Rightarrow> (Completed (), w1))"

text \<open>
  \<^verbatim>\<open>Statement(Statement&& other)\<close> (\<^verbatim>\<open>sqlite.cpp\<close>, lines 108-110): the member
  initialiser \<^verbatim>\<open>columnIndices(other.columnIndices)\<close> copies the map, so \<^verbatim>\<open>other\<close> keeps
  its own.
\<close>

definition Statement_move_ctor :: "Statement \<Rightarrow> Statement \<times> Statement" where
  "Statement_move_ctor other =
     (\<lparr> stmt = stmt other, columnIndices = columnIndices other \<rparr>, other\<lparr>stmt := nullptr\<rparr>)"

text \<open>
  \<^verbatim>\<open>operator=(Statement&& other)\<close> (\<^verbatim>\<open>sqlite.cpp\<close>, lines 112-121) for two distinct
  objects. \<^verbatim>\<open>std::move(other.columnIndices)\<close> leaves the source map valid but
  unspecified; \<open>moved_from_map\<close> is what it is left as (the standard libraries in use
  leave it empty).
\<close>

definition Statement_move_assign ::
  "'s sqlite3_api \<Rightarrow> (string \<rightharpoonup> int) \<Rightarrow> Statement \<Rightarrow> Statement \<Rightarrow> 's world \<Rightarrow> (Statement \<times> Statement) noexcept \<times> 's world" where
  "Statement_move_assign api moved_from_map this other w =
     (case Statement_finalize api this w of
        (Inl e, this1, w1) \<Rightarrow> (if e = UseAfterFree then Undefined else Terminate e, w1)
      | (Inr u, this1, w1) \<Rightarrow>
          (Completed (this1\<lparr>stmt := stmt other, columnIndices := columnIndices other\<rparr>,
                      other\<lparr>stmt := nullptr, columnIndices := moved_from_map\<rparr>), w1))"

subsection \<open>Parameters\<close>

definition Statement_getColumnIndex :: "Statement \<Rightarrow> string \<Rightarrow> exn + int" where
  "Statement_getColumnIndex s columnName =
     (case columnIndices s columnName of
        Some i \<Rightarrow> Inr i
      | None \<Rightarrow> Inl (OtherError (''column not found: '' @ columnName)))"

definition Statement_getParamIndex :: "'s sqlite3_api \<Rightarrow> Statement \<Rightarrow> string \<Rightarrow> 's world \<Rightarrow> (exn + int) \<times> 's world" where
  "Statement_getParamIndex api s paramName w =
     (case Statement_ensure s of
        Inl e \<Rightarrow> (Inl e, w)
      | Inr u \<Rightarrow>
          (case query ''sqlite3_bind_parameter_index'' (stmt s) (\<lambda>e. sqlite3_bind_parameter_index api e (stmt s) paramName) w of (i, w1) \<Rightarrow>
           if i = 0 then (Inl (OtherError (''parameter not found: '' @ paramName)), w1)
           else (Inr i, w1)))"

definition Statement_getParamName :: "'s sqlite3_api \<Rightarrow> Statement \<Rightarrow> int \<Rightarrow> 's world \<Rightarrow> (exn + string) \<times> 's world" where
  "Statement_getParamName api s i w =
     (case Statement_ensure s of
        Inl e \<Rightarrow> (Inl e, w)
      | Inr u \<Rightarrow>
          (case query ''sqlite3_bind_parameter_name'' (stmt s) (\<lambda>e. sqlite3_bind_parameter_name api e (stmt s) i) w of (name, w1) \<Rightarrow>
           (case name of Some n \<Rightarrow> (Inr n, w1) | None \<Rightarrow> (Inr [], w1))))"

text \<open>
  The five overloads of \<^verbatim>\<open>bind(int index, ...)\<close> (\<^verbatim>\<open>sqlite.cpp\<close>, lines 168-201).
  \<^verbatim>\<open>value.size()\<close> is a \<^verbatim>\<open>size_t\<close> passed as an \<^verbatim>\<open>int\<close> parameter.
\<close>

definition size_t_to_int :: "nat \<Rightarrow> int" where
  "size_t_to_int n = sint (word_of_nat n :: 32 word)"

definition Statement_bind_int :: "'s sqlite3_api \<Rightarrow> Statement \<Rightarrow> int \<Rightarrow> int \<Rightarrow> 's world \<Rightarrow> (exn + unit) \<times> Statement \<times> 's world" where
  "Statement_bind_int api s i v w =
     (case Statement_ensure s of
        Inl e \<Rightarrow> (Inl e, s, w)
      | Inr u \<Rightarrow>
          (case invoke ''sqlite3_bind_int'' (stmt s) (\<lambda>e. sqlite3_bind_int api e (stmt s) i v) w of (rc, w1) \<Rightarrow>
           if rc \<noteq> SQLITE_OK then
             (case query ''sqlite3_db_handle'' (stmt s) (\<lambda>e. sqlite3_db_handle api e (stmt s)) w1 of (h, w2) \<Rightarrow>
              case throwSQLiteError api h ''failed to bind int'' [] w2 of (e, w3) \<Rightarrow> (Inl e, s, w3))
           else (Inr (), s, w1)))"

definition Statement_bind_int64 :: "'s sqlite3_api \<Rightarrow> Statement \<Rightarrow> int \<Rightarrow> int \<Rightarrow> 's world \<Rightarrow> (exn + unit) \<times> Statement \<times> 's world" where
  "Statement_bind_int64 api s i v w =
     (case Statement_ensure s of
        Inl e \<Rightarrow> (Inl e, s, w)
      | Inr u \<Rightarrow>
          (case invoke ''sqlite3_bind_int64'' (stmt s) (\<lambda>e. sqlite3_bind_int64 api e (stmt s) i v) w of (rc, w1) \<Rightarrow>
           if rc \<noteq> SQLITE_OK then
             (case query ''sqlite3_db_handle'' (stmt s) (\<lambda>e. sqlite3_db_handle api e (stmt s)) w1 of (h, w2) \<Rightarrow>
              case throwSQLiteError api h ''failed to bind int64'' [] w2 of (e, w3) \<Rightarrow> (Inl e, s, w3))
           else (Inr (), s, w1)))"

definition Statement_bind_double :: "'s sqlite3_api \<Rightarrow> Statement \<Rightarrow> int \<Rightarrow> double \<Rightarrow> 's world \<Rightarrow> (exn + unit) \<times> Statement \<times> 's world" where
  "Statement_bind_double api s i v w =
     (case Statement_ensure s of
        Inl e \<Rightarrow> (Inl e, s, w)
      | Inr u \<Rightarrow>
          (case invoke ''sqlite3_bind_double'' (stmt s) (\<lambda>e. sqlite3_bind_double api e (stmt s) i v) w of (rc, w1) \<Rightarrow>
           if rc \<noteq> SQLITE_OK then
             (case query ''sqlite3_db_handle'' (stmt s) (\<lambda>e. sqlite3_db_handle api e (stmt s)) w1 of (h, w2) \<Rightarrow>
              case throwSQLiteError api h ''failed to bind double'' [] w2 of (e, w3) \<Rightarrow> (Inl e, s, w3))
           else (Inr (), s, w1)))"

definition Statement_bind_text :: "'s sqlite3_api \<Rightarrow> Statement \<Rightarrow> int \<Rightarrow> string \<Rightarrow> 's world \<Rightarrow> (exn + unit) \<times> Statement \<times> 's world" where
  "Statement_bind_text api s i v w =
     (case Statement_ensure s of
        Inl e \<Rightarrow> (Inl e, s, w)
      | Inr u \<Rightarrow>
          (case invoke ''sqlite3_bind_text'' (stmt s) (\<lambda>e. sqlite3_bind_text api e (stmt s) i v (size_t_to_int (length v))) w of (rc, w1) \<Rightarrow>
           if rc \<noteq> SQLITE_OK then
             (case query ''sqlite3_db_handle'' (stmt s) (\<lambda>e. sqlite3_db_handle api e (stmt s)) w1 of (h, w2) \<Rightarrow>
              case throwSQLiteError api h ''failed to bind text'' [] w2 of (e, w3) \<Rightarrow> (Inl e, s, w3))
           else (Inr (), s, w1)))"

definition Statement_bind_blob :: "'s sqlite3_api \<Rightarrow> Statement \<Rightarrow> int \<Rightarrow> Blob \<Rightarrow> 's world \<Rightarrow> (exn + unit) \<times> Statement \<times> 's world" where
  "Statement_bind_blob api s i blob w =
     (case Statement_ensure s of
        Inl e \<Rightarrow> (Inl e, s, w)
      | Inr u \<Rightarrow>
          (case invoke ''sqlite3_bind_blob'' (stmt s) (\<lambda>e. sqlite3_bind_blob api e (stmt s) i (data blob) (size_blob blob)) w of (rc, w1) \<Rightarrow>
           if rc \<noteq> SQLITE_OK then
             (case query ''sqlite3_db_handle'' (stmt s) (\<lambda>e. sqlite3_db_handle api e (stmt s)) w1 of (h, w2) \<Rightarrow>
              case throwSQLiteError api h ''failed to bind blob'' [] w2 of (e, w3) \<Rightarrow> (Inl e, s, w3))
           else (Inr (), s, w1)))"

text \<open>
  A value of one of the five bindable types; \<open>Statement_bind\<close> is the overload set
  \<^verbatim>\<open>bind(int index, T value)\<close>, resolved by the type of the value.
\<close>

datatype bind_value =
    BindInt int
  | BindInt64 int
  | BindDouble double
  | BindText string
  | BindBlob Blob

fun Statement_bind :: "'s sqlite3_api \<Rightarrow> Statement \<Rightarrow> int \<Rightarrow> bind_value \<Rightarrow> 's world \<Rightarrow> (exn + unit) \<times> Statement \<times> 's world" where
  "Statement_bind api s i (BindInt v) w = Statement_bind_int api s i v w"
| "Statement_bind api s i (BindInt64 v) w = Statement_bind_int64 api s i v w"
| "Statement_bind api s i (BindDouble v) w = Statement_bind_double api s i v w"
| "Statement_bind api s i (BindText v) w = Statement_bind_text api s i v w"
| "Statement_bind api s i (BindBlob v) w = Statement_bind_blob api s i v w"

text \<open>\<^verbatim>\<open>bind(const std::string& name, T value) { bind(getParamIndex(name), value); }\<close>\<close>

definition Statement_bind_name :: "'s sqlite3_api \<Rightarrow> Statement \<Rightarrow> string \<Rightarrow> bind_value \<Rightarrow> 's world \<Rightarrow> (exn + unit) \<times> Statement \<times> 's world" where
  "Statement_bind_name api s name v w =
     (case Statement_getParamIndex api s name w of
        (Inl e, w1) \<Rightarrow> (Inl e, s, w1)
      | (Inr i, w1) \<Rightarrow> Statement_bind api s i v w1)"

text \<open>
  \<^verbatim>\<open>bindAll(args...)\<close> is \<^verbatim>\<open>bindHelper(1, args...)\<close>; the argument pack is a list, and
  the overload \<^verbatim>\<open>bindHelper(int index) {}\<close> ends the recursion.
\<close>

fun bindHelper :: "'s sqlite3_api \<Rightarrow> Statement \<Rightarrow> int \<Rightarrow> bind_value list \<Rightarrow> 's world \<Rightarrow> (exn + unit) \<times> Statement \<times> 's world" where
  "bindHelper api s i [] w = (Inr (), s, w)"
| "bindHelper api s i (v # args) w =
     (case Statement_bind api s i v w of
        (Inl e, s1, w1) \<Rightarrow> (Inl e, s1, w1)
      | (Inr u, s1, w1) \<Rightarrow> bindHelper api s1 (i + 1) args w1)"

definition Statement_bindAll :: "'s sqlite3_api \<Rightarrow> Statement \<Rightarrow> bind_value list \<Rightarrow> 's world \<Rightarrow> (exn + unit) \<times> Statement \<times> 's world" where
  "Statement_bindAll api s args w = bindHelper api s 1 args w"

subsection \<open>Column introspection\<close>

definition Statement_columnCount :: "'s sqlite3_api \<Rightarrow> Statement \<Rightarrow> 's world \<Rightarrow> (exn + int) \<times> 's world" where
  "Statement_columnCount api s w =
     (case Statement_ensure s of
        Inl e \<Rightarrow> (Inl e, w)
      | Inr u \<Rightarrow>
          (case query ''sqlite3_column_count'' (stmt s) (\<lambda>e. sqlite3_column_count api e (stmt s)) w of (n, w1) \<Rightarrow>
           (Inr n, w1)))"

definition Statement_count :: "'s sqlite3_api \<Rightarrow> Statement \<Rightarrow> 's world \<Rightarrow> (exn + int) \<times> 's world" where
  "Statement_count api s w = Statement_columnCount api s w"

definition Statement_getColumnType :: "'s sqlite3_api \<Rightarrow> Statement \<Rightarrow> int \<Rightarrow> 's world \<Rightarrow> (exn + DataType) \<times> 's world" where
  "Statement_getColumnType api s i w =
     (case Statement_ensure s of
        Inl e \<Rightarrow> (Inl e, w)
      | Inr u \<Rightarrow>
          (case query ''sqlite3_column_type'' (stmt s) (\<lambda>e. sqlite3_column_type api e (stmt s) i) w of (v, w1) \<Rightarrow>
           (if v = SQLITE_INTEGER then (Inr Integer, w1)
            else if v = SQLITE_FLOAT then (Inr Float, w1)
            else if v = SQLITE_TEXT then (Inr Text, w1)
            else if v = SQLITE_BLOB then (Inr Blob, w1)
            else if v = SQLITE_NULL then (Inr Null, w1)
            else (Inl (OtherError ''unknown column type''), w1))))"

definition Statement_getColumnDeclType :: "'s sqlite3_api \<Rightarrow> Statement \<Rightarrow> int \<Rightarrow> 's world \<Rightarrow> (exn + string) \<times> 's world" where
  "Statement_getColumnDeclType api s i w =
     (case Statement_ensure s of
        Inl e \<Rightarrow> (Inl e, w)
      | Inr u \<Rightarrow>
          (case query ''sqlite3_column_decltype'' (stmt s) (\<lambda>e. sqlite3_column_decltype api e (stmt s) i) w of (v, w1) \<Rightarrow>
           (case v of Some n \<Rightarrow> (Inr n, w1) | None \<Rightarrow> (Inr [], w1))))"

definition Statement_getColumnName :: "'s sqlite3_api \<Rightarrow> Statement \<Rightarrow> int \<Rightarrow> 's world \<Rightarrow> (exn + string) \<times> 's world" where
  "Statement_getColumnName api s i w =
     (case Statement_ensure s of
        Inl e \<Rightarrow> (Inl e, w)
      | Inr u \<Rightarrow>
          (case query ''sqlite3_column_name'' (stmt s) (\<lambda>e. sqlite3_column_name api e (stmt s) i) w of (v, w1) \<Rightarrow>
           (case v of Some n \<Rightarrow> (Inr n, w1) | None \<Rightarrow> (Inr [], w1))))"

text \<open>
  The three metadata getters are compiled under \<^verbatim>\<open>#ifdef SQLITE_ENABLE_COLUMN_METADATA\<close>;
  the macro is the first argument.
\<close>

definition Statement_getColumnOriginName :: "bool \<Rightarrow> 's sqlite3_api \<Rightarrow> Statement \<Rightarrow> int \<Rightarrow> 's world \<Rightarrow> (exn + string) \<times> 's world" where
  "Statement_getColumnOriginName SQLITE_ENABLE_COLUMN_METADATA api s i w =
     (if SQLITE_ENABLE_COLUMN_METADATA then
        (case Statement_ensure s of
           Inl e \<Rightarrow> (Inl e, w)
         | Inr u \<Rightarrow>
             (case query ''sqlite3_column_origin_name'' (stmt s) (\<lambda>e. sqlite3_column_origin_name api e (stmt s) i) w of (v, w1) \<Rightarrow>
              (case v of Some n \<Rightarrow> (Inr n, w1) | None \<Rightarrow> (Inr [], w1))))
      else
        (Inl (OtherError ''column metadata not enabled, to enable, define SQLITE_ENABLE_COLUMN_METADATA''), w))"

definition Statement_getColumnTableName :: "bool \<Rightarrow> 's sqlite3_api \<Rightarrow> Statement \<Rightarrow> int \<Rightarrow> 's world \<Rightarrow> (exn + string) \<times> 's world" where
  "Statement_getColumnTableName SQLITE_ENABLE_COLUMN_METADATA api s i w =
     (if SQLITE_ENABLE_COLUMN_METADATA then
        (case Statement_ensure s of
           Inl e \<Rightarrow> (Inl e, w)
         | Inr u \<Rightarrow>
             (case query ''sqlite3_column_table_name'' (stmt s) (\<lambda>e. sqlite3_column_table_name api e (stmt s) i) w of (v, w1) \<Rightarrow>
              (case v of Some n \<Rightarrow> (Inr n, w1) | None \<Rightarrow> (Inr [], w1))))
      else
        (Inl (OtherError ''column metadata not enabled, to enable, define SQLITE_ENABLE_COLUMN_METADATA''), w))"

definition Statement_getColumnDatabaseName :: "bool \<Rightarrow> 's sqlite3_api \<Rightarrow> Statement \<Rightarrow> int \<Rightarrow> 's world \<Rightarrow> (exn + string) \<times> 's world" where
  "Statement_getColumnDatabaseName SQLITE_ENABLE_COLUMN_METADATA api s i w =
     (if SQLITE_ENABLE_COLUMN_METADATA then
        (case Statement_ensure s of
           Inl e \<Rightarrow> (Inl e, w)
         | Inr u \<Rightarrow>
             (case query ''sqlite3_column_database_name'' (stmt s) (\<lambda>e. sqlite3_column_database_name api e (stmt s) i) w of (v, w1) \<Rightarrow>
              (case v of Some n \<Rightarrow> (Inr n, w1) | None \<Rightarrow> (Inr [], w1))))
      else
        (Inl (OtherError ''column metadata not enabled, to enable, define SQLITE_ENABLE_COLUMN_METADATA''), w))"

definition Statement_getColumnType_name :: "'s sqlite3_api \<Rightarrow> Statement \<Rightarrow> string \<Rightarrow> 's world \<Rightarrow> (exn + DataType) \<times> 's world" where
  "Statement_getColumnType_name api s name w =
     (case Statement_getColumnIndex s name of
        Inl e \<Rightarrow> (Inl e, w)
      | Inr i \<Rightarrow> Statement_getColumnType api s i w)"

definition Statement_getColumnDeclType_name :: "'s sqlite3_api \<Rightarrow> Statement \<Rightarrow> string \<Rightarrow> 's world \<Rightarrow> (exn + string) \<times> 's world" where
  "Statement_getColumnDeclType_name api s name w =
     (case Statement_getColumnIndex s name of
        Inl e \<Rightarrow> (Inl e, w)
      | Inr i \<Rightarrow> Statement_getColumnDeclType api s i w)"

definition Statement_getColumnOriginName_name :: "bool \<Rightarrow> 's sqlite3_api \<Rightarrow> Statement \<Rightarrow> string \<Rightarrow> 's world \<Rightarrow> (exn + string) \<times> 's world" where
  "Statement_getColumnOriginName_name md api s name w =
     (case Statement_getColumnIndex s name of
        Inl e \<Rightarrow> (Inl e, w)
      | Inr i \<Rightarrow> Statement_getColumnOriginName md api s i w)"

definition Statement_getColumnTableName_name :: "bool \<Rightarrow> 's sqlite3_api \<Rightarrow> Statement \<Rightarrow> string \<Rightarrow> 's world \<Rightarrow> (exn + string) \<times> 's world" where
  "Statement_getColumnTableName_name md api s name w =
     (case Statement_getColumnIndex s name of
        Inl e \<Rightarrow> (Inl e, w)
      | Inr i \<Rightarrow> Statement_getColumnTableName md api s i w)"

definition Statement_getColumnDatabaseName_name :: "bool \<Rightarrow> 's sqlite3_api \<Rightarrow> Statement \<Rightarrow> string \<Rightarrow> 's world \<Rightarrow> (exn + string) \<times> 's world" where
  "Statement_getColumnDatabaseName_name md api s name w =
     (case Statement_getColumnIndex s name of
        Inl e \<Rightarrow> (Inl e, w)
      | Inr i \<Rightarrow> Statement_getColumnDatabaseName md api s i w)"

subsection \<open>Typed column reads\<close>

definition Statement_getInt :: "'s sqlite3_api \<Rightarrow> Statement \<Rightarrow> int \<Rightarrow> 's world \<Rightarrow> (exn + int) \<times> 's world" where
  "Statement_getInt api s i w =
     (case Statement_ensure s of
        Inl e \<Rightarrow> (Inl e, w)
      | Inr u \<Rightarrow>
          (case query ''sqlite3_column_int'' (stmt s) (\<lambda>e. sqlite3_column_int api e (stmt s) i) w of (v, w1) \<Rightarrow>
           (Inr v, w1)))"

definition Statement_getInt64 :: "'s sqlite3_api \<Rightarrow> Statement \<Rightarrow> int \<Rightarrow> 's world \<Rightarrow> (exn + int) \<times> 's world" where
  "Statement_getInt64 api s i w =
     (case Statement_ensure s of
        Inl e \<Rightarrow> (Inl e, w)
      | Inr u \<Rightarrow>
          (case query ''sqlite3_column_int64'' (stmt s) (\<lambda>e. sqlite3_column_int64 api e (stmt s) i) w of (v, w1) \<Rightarrow>
           (Inr v, w1)))"

definition Statement_getDouble :: "'s sqlite3_api \<Rightarrow> Statement \<Rightarrow> int \<Rightarrow> 's world \<Rightarrow> (exn + double) \<times> 's world" where
  "Statement_getDouble api s i w =
     (case Statement_ensure s of
        Inl e \<Rightarrow> (Inl e, w)
      | Inr u \<Rightarrow>
          (case query ''sqlite3_column_double'' (stmt s) (\<lambda>e. sqlite3_column_double api e (stmt s) i) w of (v, w1) \<Rightarrow>
           (Inr v, w1)))"

text \<open>
  \<^verbatim>\<open>std::string(const char* p, size_t n)\<close> on a buffer \<open>buf\<close> with the \<^verbatim>\<open>int\<close> length
  \<open>n\<close> that the engine reported.
\<close>

definition std_string_of_buffer :: "string \<Rightarrow> int \<Rightarrow> exn + string" where
  "std_string_of_buffer buf n =
     (if n < 0 then Inl StdLengthError
      else if nat n \<le> length buf then Inr (take (nat n) buf)
      else Inl BufferOverread)"

definition Statement_getString :: "'s sqlite3_api \<Rightarrow> Statement \<Rightarrow> int \<Rightarrow> 's world \<Rightarrow> (exn + string) \<times> 's world" where
  "Statement_getString api s i w =
     (case Statement_ensure s of
        Inl e \<Rightarrow> (Inl e, w)
      | Inr u \<Rightarrow>
          (case invoke ''sqlite3_column_text'' (stmt s) (\<lambda>e. sqlite3_column_text api e (stmt s) i) w of (text, w1) \<Rightarrow>
           case query ''sqlite3_column_bytes'' (stmt s) (\<lambda>e. sqlite3_column_bytes api e (stmt s) i) w1 of (n, w2) \<Rightarrow>
           (case text of
              Some buf \<Rightarrow> (std_string_of_buffer buf n, w2)
            | None \<Rightarrow> (Inr [], w2))))"

definition Statement_getBlob :: "'s sqlite3_api \<Rightarrow> Statement \<Rightarrow> int \<Rightarrow> 's world \<Rightarrow> (exn + Blob) \<times> 's world" where
  "Statement_getBlob api s i w =
     (case Statement_ensure s of
        Inl e \<Rightarrow> (Inl e, w)
      | Inr u \<Rightarrow>
          (case invoke ''sqlite3_column_blob'' (stmt s) (\<lambda>e. sqlite3_column_blob api e (stmt s) i) w of (p, w1) \<Rightarrow>
           case query ''sqlite3_column_bytes'' (stmt s) (\<lambda>e. sqlite3_column_bytes api e (stmt s) i) w1 of (n, w2) \<Rightarrow>
           (Inr \<lparr> data = p, size_blob = n \<rparr>, w2)))"

definition Statement_getInt_name :: "'s sqlite3_api \<Rightarrow> Statement \<Rightarrow> string \<Rightarrow> 's world \<Rightarrow> (exn + int) \<times> 's world" where
  "Statement_getInt_name api s name w =
     (case Statement_getColumnIndex s name of
        Inl e \<Rightarrow> (Inl e, w)
      | Inr i \<Rightarrow> Statement_getInt api s i w)"

definition Statement_getInt64_name :: "'s sqlite3_api \<Rightarrow> Statement \<Rightarrow> string \<Rightarrow> 's world \<Rightarrow> (exn + int) \<times> 's world" where
  "Statement_getInt64_name api s name w =
     (case Statement_getColumnIndex s name of
        Inl e \<Rightarrow> (Inl e, w)
      | Inr i \<Rightarrow> Statement_getInt64 api s i w)"

definition Statement_getDouble_name :: "'s sqlite3_api \<Rightarrow> Statement \<Rightarrow> string \<Rightarrow> 's world \<Rightarrow> (exn + double) \<times> 's world" where
  "Statement_getDouble_name api s name w =
     (case Statement_getColumnIndex s name of
        Inl e \<Rightarrow> (Inl e, w)
      | Inr i \<Rightarrow> Statement_getDouble api s i w)"

definition Statement_getString_name :: "'s sqlite3_api \<Rightarrow> Statement \<Rightarrow> string \<Rightarrow> 's world \<Rightarrow> (exn + string) \<times> 's world" where
  "Statement_getString_name api s name w =
     (case Statement_getColumnIndex s name of
        Inl e \<Rightarrow> (Inl e, w)
      | Inr i \<Rightarrow> Statement_getString api s i w)"

definition Statement_getBlob_name :: "'s sqlite3_api \<Rightarrow> Statement \<Rightarrow> string \<Rightarrow> 's world \<Rightarrow> (exn + Blob) \<times> 's world" where
  "Statement_getBlob_name api s name w =
     (case Statement_getColumnIndex s name of
        Inl e \<Rightarrow> (Inl e, w)
      | Inr i \<Rightarrow> Statement_getBlob api s i w)"

subsection \<open>Execution\<close>

text \<open>
  \<^verbatim>\<open>Statement::step\<close> (\<^verbatim>\<open>sqlite.cpp\<close>, lines 294-305). \<^verbatim>\<open>throwSQLiteError\<close> always
  throws, so the trailing \<^verbatim>\<open>return false\<close> is never reached.
\<close>

definition Statement_step :: "'s sqlite3_api \<Rightarrow> Statement \<Rightarrow> 's world \<Rightarrow> (exn + bool) \<times> Statement \<times> 's world" where
  "Statement_step api s w =
     (case Statement_ensure s of
        Inl e \<Rightarrow> (Inl e, s, w)
      | Inr u \<Rightarrow>
          (case invoke ''sqlite3_step'' (stmt s) (\<lambda>e. sqlite3_step api e (stmt s)) w of (result, w1) \<Rightarrow>
           if result = SQLITE_ROW then (Inr True, s, w1)
           else if result = SQLITE_DONE then (Inr False, s, w1)
           else
             (case query ''sqlite3_db_handle'' (stmt s) (\<lambda>e. sqlite3_db_handle api e (stmt s)) w1 of (h, w2) \<Rightarrow>
              case throwSQLiteError api h ''failed to step statement'' [] w2 of (e, w3) \<Rightarrow> (Inl e, s, w3))))"

definition Statement_exec :: "'s sqlite3_api \<Rightarrow> Statement \<Rightarrow> 's world \<Rightarrow> (exn + bool) \<times> Statement \<times> 's world" where
  "Statement_exec api s w = Statement_step api s w"

definition Statement_execute :: "'s sqlite3_api \<Rightarrow> Statement \<Rightarrow> 's world \<Rightarrow> (exn + bool) \<times> Statement \<times> 's world" where
  "Statement_execute api s w = Statement_step api s w"

definition Statement_reset :: "'s sqlite3_api \<Rightarrow> Statement \<Rightarrow> 's world \<Rightarrow> (exn + unit) \<times> Statement \<times> 's world" where
  "Statement_reset api s w =
     (case Statement_ensure s of
        Inl e \<Rightarrow> (Inl e, s, w)
      | Inr u \<Rightarrow>
          (case invoke ''sqlite3_reset'' (stmt s) (\<lambda>e. sqlite3_reset api e (stmt s)) w of (rc, w1) \<Rightarrow>
           if rc \<noteq> SQLITE_OK then
             (case query ''sqlite3_db_handle'' (stmt s) (\<lambda>e. sqlite3_db_handle api e (stmt s)) w1 of (h, w2) \<Rightarrow>
              case throwSQLiteError api h ''failed to reset statement'' [] w2 of (e, w3) \<Rightarrow> (Inl e, s, w3))
           else (Inr (), s, w1)))"

definition Statement_clearBindings :: "'s sqlite3_api \<Rightarrow> Statement \<Rightarrow> 's world \<Rightarrow> (exn + unit) \<times> Statement \<times> 's world" where
  "Statement_clearBindings api s w =
     (case Statement_ensure s of
        Inl e \<Rightarrow> (Inl e, s, w)
      | Inr u \<Rightarrow>
          (case invoke ''sqlite3_clear_bindings'' (stmt s) (\<lambda>e. sqlite3_clear_bindings api e (stmt s)) w of (rc, w1) \<Rightarrow>
           if rc \<noteq> SQLITE_OK then
             (case query ''sqlite3_db_handle'' (stmt s) (\<lambda>e. sqlite3_db_handle api e (stmt s)) w1 of (h, w2) \<Rightarrow>
              case throwSQLiteError api h ''failed to clear bindings'' [] w2 of (e, w3) \<Rightarrow> (Inl e, s, w3))
           else (Inr (), s, w1)))"

definition Statement_reuse :: "'s sqlite3_api \<Rightarrow> Statement \<Rightarrow> 's world \<Rightarrow> (exn + unit) \<times> Statement \<times> 's world" where
  "Statement_reuse api s w =
     (case Statement_reset api s w of
        (Inl e, s1, w1) \<Rightarrow> (Inl e, s1, w1)
      | (Inr u, s1, w1) \<Rightarrow> Statement_clearBindings api s1 w1)"

subsection \<open>Column and Parameter views\<close>

text \<open>
  A view holds a reference to its statement and the index; the model keeps the index and
  is handed the statement. \<^verbatim>\<open>operator[]\<close> and \<^verbatim>\<open>param\<close> make the views; the overloads
  taking \<^verbatim>\<open>const char*\<close> have the bodies of those taking \<^verbatim>\<open>std::string\<close>.
\<close>

datatype Column = Column int

datatype Parameter = Parameter int

definition Statement_subscript :: "Statement \<Rightarrow> int \<Rightarrow> Column" where
  "Statement_subscript s i = Column i"

definition Statement_subscript_name :: "Statement \<Rightarrow> string \<Rightarrow> exn + Column" where
  "Statement_subscript_name s columnName =
     (case Statement_getColumnIndex s columnName of Inl e \<Rightarrow> Inl e | Inr i \<Rightarrow> Inr (Column i))"

definition Statement_param :: "Statement \<Rightarrow> int \<Rightarrow> Parameter" where
  "Statement_param s i = Parameter i"

definition Statement_param_name :: "'s sqlite3_api \<Rightarrow> Statement \<Rightarrow> string \<Rightarrow> 's world \<Rightarrow> (exn + Parameter) \<times> 's world" where
  "Statement_param_name api s paramName w =
     (case Statement_getParamIndex api s paramName w of
        (Inl e, w1) \<Rightarrow> (Inl e, w1)
      | (Inr i, w1) \<Rightarrow> (Inr (Parameter i), w1))"

fun Column_getInt :: "'s sqlite3_api \<Rightarrow> Statement \<Rightarrow> Column \<Rightarrow> 's world \<Rightarrow> (exn + int) \<times> 's world" where
  "Column_getInt api s (Column i) w = Statement_getInt api s i w"

fun Column_getInt64 :: "'s sqlite3_api \<Rightarrow> Statement \<Rightarrow> Column \<Rightarrow> 's world \<Rightarrow> (exn + int) \<times> 's world" where
  "Column_getInt64 api s (Column i) w = Statement_getInt64 api s i w"

fun Column_getDouble :: "'s sqlite3_api \<Rightarrow> Statement \<Rightarrow> Column \<Rightarrow> 's world \<Rightarrow> (exn + double) \<times> 's world" where
  "Column_getDouble api s (Column i) w = Statement_getDouble api s i w"

fun Column_getString :: "'s sqlite3_api \<Rightarrow> Statement \<Rightarrow> Column \<Rightarrow> 's world \<Rightarrow> (exn + string) \<times> 's world" where
  "Column_getString api s (Column i) w = Statement_getString api s i w"

fun Column_getBlob :: "'s sqlite3_api \<Rightarrow> Statement \<Rightarrow> Column \<Rightarrow> 's world \<Rightarrow> (exn + Blob) \<times> 's world" where
  "Column_getBlob api s (Column i) w = Statement_getBlob api s i w"

fun Parameter_assign :: "'s sqlite3_api \<Rightarrow> Statement \<Rightarrow> Parameter \<Rightarrow> bind_value \<Rightarrow> 's world \<Rightarrow> (exn + unit) \<times> Statement \<times> 's world" where
  "Parameter_assign api s (Parameter i) v w = Statement_bind api s i v w"

fun Parameter_name :: "'s sqlite3_api \<Rightarrow> Statement \<Rightarrow> Parameter \<Rightarrow> 's world \<Rightarrow> (exn + string) \<times> 's world" where
  "Parameter_name api s (Parameter i) w = Statement_getParamName api s i w"

section \<open>The public interface as calls\<close>

text \<open>
  Every public member function with its arguments is a call, and every result a value of
  one type, so that a statement about every public operation is a statement about every
  call. The constructors, destructors and move operations are the functions above.
\<close>

datatype ret =
    RVoid
  | RBool bool
  | RInt int
  | RInt64 int
  | RDouble double
  | RString string
  | RBlob Blob
  | RDataType DataType
  | RColumn Column
  | RParameter Parameter
  | RStatement Statement
  | RErrorPtr "error_info option"

definition returning :: "('a \<Rightarrow> ret) \<Rightarrow> exn + 'a \<Rightarrow> exn + ret" where
  "returning f r = (case r of Inl e \<Rightarrow> Inl e | Inr v \<Rightarrow> Inr (f v))"

definition const_call :: "('a \<Rightarrow> ret) \<Rightarrow> 'o \<Rightarrow> (exn + 'a) \<times> 's world \<Rightarrow> (exn + ret) \<times> 'o \<times> 's world" where
  "const_call f obj x = (case x of (r, w) \<Rightarrow> (returning f r, obj, w))"

definition mutable_call :: "('a \<Rightarrow> ret) \<Rightarrow> (exn + 'a) \<times> 'o \<times> 's world \<Rightarrow> (exn + ret) \<times> 'o \<times> 's world" where
  "mutable_call f x = (case x of (r, obj, w) \<Rightarrow> (returning f r, obj, w))"

datatype SQLite_op =
    C_isThreadsafe
  | C_configureSerialized
  | C_open string int
  | C_close
  | C_prepare string bool
  | C_exec string
  | C_execute string
  | C_operator_bool

fun SQLite_call :: "'s sqlite3_api \<Rightarrow> SQLite \<Rightarrow> SQLite_op \<Rightarrow> 's world \<Rightarrow> (exn + ret) \<times> SQLite \<times> 's world" where
  "SQLite_call api c C_isThreadsafe w = (case isThreadsafe api w of (b, w1) \<Rightarrow> (Inr (RBool b), c, w1))"
| "SQLite_call api c C_configureSerialized w = (case configureSerialized api w of (p, w1) \<Rightarrow> (Inr (RErrorPtr p), c, w1))"
| "SQLite_call api c (C_open dbName flags) w = mutable_call (\<lambda>u. RVoid) (SQLite_open api c dbName flags w)"
| "SQLite_call api c C_close w = mutable_call (\<lambda>u. RVoid) (SQLite_close api c w)"
| "SQLite_call api c (C_prepare sql persistent) w = mutable_call RStatement (SQLite_prepare api c sql persistent w)"
| "SQLite_call api c (C_exec sql) w = mutable_call (\<lambda>u. RVoid) (SQLite_exec api c sql w)"
| "SQLite_call api c (C_execute sql) w = mutable_call (\<lambda>u. RVoid) (SQLite_execute api c sql w)"
| "SQLite_call api c C_operator_bool w = (Inr (RBool (SQLite_operator_bool c)), c, w)"

datatype Statement_op =
    S_finalize
  | S_getParamIndex string
  | S_getParamName int
  | S_param int
  | S_param_name string
  | S_bind int bind_value
  | S_bind_name string bind_value
  | S_bindAll "bind_value list"
  | S_subscript int
  | S_subscript_name string
  | S_columnCount
  | S_count
  | S_getColumnIndex string
  | S_getColumnType int
  | S_getColumnDeclType int
  | S_getColumnType_name string
  | S_getColumnDeclType_name string
  | S_getColumnName int
  | S_getColumnOriginName int
  | S_getColumnTableName int
  | S_getColumnDatabaseName int
  | S_getColumnOriginName_name string
  | S_getColumnTableName_name string
  | S_getColumnDatabaseName_name string
  | S_getInt int
  | S_getInt64 int
  | S_getDouble int
  | S_getString int
  | S_getBlob int
  | S_getInt_name string
  | S_getInt64_name string
  | S_getDouble_name string
  | S_getString_name string
  | S_getBlob_name string
  | S_step
  | S_exec
  | S_execute
  | S_reset
  | S_clearBindings
  | S_reuse
  | S_operator_bool

fun Statement_call :: "bool \<Rightarrow> 's sqlite3_api \<Rightarrow> Statement \<Rightarrow> Statement_op \<Rightarrow> 's world \<Rightarrow> (exn + ret) \<times> Statement \<times> 's world" where
  "Statement_call md api s S_finalize w = mutable_call (\<lambda>u. RVoid) (Statement_finalize api s w)"
| "Statement_call md api s (S_getParamIndex n) w = const_call RInt s (Statement_getParamIndex api s n w)"
| "Statement_call md api s (S_getParamName i) w = const_call RString s (Statement_getParamName api s i w)"
| "Statement_call md api s (S_param i) w = (Inr (RParameter (Statement_param s i)), s, w)"
| "Statement_call md api s (S_param_name n) w = const_call RParameter s (Statement_param_name api s n w)"
| "Statement_call md api s (S_bind i v) w = mutable_call (\<lambda>u. RVoid) (Statement_bind api s i v w)"
| "Statement_call md api s (S_bind_name n v) w = mutable_call (\<lambda>u. RVoid) (Statement_bind_name api s n v w)"
| "Statement_call md api s (S_bindAll args) w = mutable_call (\<lambda>u. RVoid) (Statement_bindAll api s args w)"
| "Statement_call md api s (S_subscript i) w = (Inr (RColumn (Statement_subscript s i)), s, w)"
| "Statement_call md api s (S_subscript_name n) w = (returning RColumn (Statement_subscript_name s n), s, w)"
| "Statement_call md api s S_columnCount w = const_call RInt s (Statement_columnCount api s w)"
| "Statement_call md api s S_count w = const_call RInt s (Statement_count api s w)"
| "Statement_call md api s (S_getColumnIndex n) w = (returning RInt (Statement_getColumnIndex s n), s, w)"
| "Statement_call md api s (S_getColumnType i) w = const_call RDataType s (Statement_getColumnType api s i w)"
| "Statement_call md api s (S_getColumnDeclType i) w = const_call RString s (Statement_getColumnDeclType api s i w)"
| "Statement_call md api s (S_getColumnType_name n) w = const_call RDataType s (Statement_getColumnType_name api s n w)"
| "Statement_call md api s (S_getColumnDeclType_name n) w = const_call RString s (Statement_getColumnDeclType_name api s n w)"
| "Statement_call md api s (S_getColumnName i) w = const_call RString s (Statement_getColumnName api s i w)"
| "Statement_call md api s (S_getColumnOriginName i) w = const_call RString s (Statement_getColumnOriginName md api s i w)"
| "Statement_call md api s (S_getColumnTableName i) w = const_call RString s (Statement_getColumnTableName md api s i w)"
| "Statement_call md api s (S_getColumnDatabaseName i) w = const_call RString s (Statement_getColumnDatabaseName md api s i w)"
| "Statement_call md api s (S_getColumnOriginName_name n) w = const_call RString s (Statement_getColumnOriginName_name md api s n w)"
| "Statement_call md api s (S_getColumnTableName_name n) w = const_call RString s (Statement_getColumnTableName_name md api s n w)"
| "Statement_call md api s (S_getColumnDatabaseName_name n) w = const_call RString s (Statement_getColumnDatabaseName_name md api s n w)"
| "Statement_call md api s (S_getInt i) w = const_call RInt s (Statement_getInt api s i w)"
| "Statement_call md api s (S_getInt64 i) w = const_call RInt64 s (Statement_getInt64 api s i w)"
| "Statement_call md api s (S_getDouble i) w = const_call RDouble s (Statement_getDouble api s i w)"
| "Statement_call md api s (S_getString i) w = const_call RString s (Statement_getString api s i w)"
| "Statement_call md api s (S_getBlob i) w = const_call RBlob s (Statement_getBlob api s i w)"
| "Statement_call md api s (S_getInt_name n) w = const_call RInt s (Statement_getInt_name api s n w)"
| "Statement_call md api s (S_getInt64_name n) w = const_call RInt64 s (Statement_getInt64_name api s n w)"
| "Statement_call md api s (S_getDouble_name n) w = const_call RDouble s (Statement_getDouble_name api s n w)"
| "Statement_call md api s (S_getString_name n) w = const_call RString s (Statement_getString_name api s n w)"
| "Statement_call md api s (S_getBlob_name n) w = const_call RBlob s (Statement_getBlob_name api s n w)"
| "Statement_call md api s S_step w = mutable_call RBool (Statement_step api s w)"
| "Statement_call md api s S_exec w = mutable_call RBool (Statement_exec api s w)"
| "Statement_call md api s S_execute w = mutable_call RBool (Statement_execute api s w)"
| "Statement_call md api s S_reset w = mutable_call (\<lambda>u. RVoid) (Statement_reset api s w)"
| "Statement_call md api s S_clearBindings w = mutable_call (\<lambda>u. RVoid) (Statement_clearBindings api s w)"
| "Statement_call md api s S_reuse w = mutable_call (\<lambda>u. RVoid) (Statement_reuse api s w)"
| "Statement_call md api s S_operator_bool w = (Inr (RBool (Statement_operator_bool s)), s, w)"

section \<open>Vocabulary of the properties\<close>

text \<open>
  The five error kinds of the wrapper: the four built from engine diagnostics and
  \<^verbatim>\<open>OtherError\<close>.
\<close>

fun five_kinds :: "exn \<Rightarrow> bool" where
  "five_kinds (Error info) = True"
| "five_kinds (SyntaxError info sql off) = True"
| "five_kinds (BusyError info) = True"
| "five_kinds (MisuseError info) = True"
| "five_kinds (OtherError m) = True"
| "five_kinds StdLengthError = False"
| "five_kinds BufferOverread = False"
| "five_kinds UseAfterFree = False"

text \<open>
  The members of the error object that the classification builds: the caller's context,
  and the engine's message, primary code and extended code for the handle.
\<close>

definition diagnostics :: "'s sqlite3_api \<Rightarrow> 's \<Rightarrow> ptr \<Rightarrow> string \<Rightarrow> error_info" where
  "diagnostics api e h msg =
     Error_ctor msg (sqlite3_errmsg api e h) (sqlite3_errcode api e h) (sqlite3_extended_errcode api e h)"

text \<open>
  The outcome of the classification for a call without SQL text: dispatch on the primary
  code alone.
\<close>

definition by_code :: "'s sqlite3_api \<Rightarrow> 's \<Rightarrow> ptr \<Rightarrow> string \<Rightarrow> exn" where
  "by_code api e h msg =
     (if sqlite3_errcode api e h = SQLITE_BUSY then BusyError (diagnostics api e h msg)
      else if sqlite3_errcode api e h = SQLITE_MISUSE then MisuseError (diagnostics api e h msg)
      else Error (diagnostics api e h msg))"

text \<open>
  The calls whose function body starts with \<^verbatim>\<open>ensure()\<close> (for \<^verbatim>\<open>bind(name, ...)\<close> and
  \<^verbatim>\<open>param(name)\<close>: whose first step is \<^verbatim>\<open>getParamIndex\<close>, which starts with it). The
  metadata getters have it only when the macro is defined; \<^verbatim>\<open>bindAll\<close> reaches it with
  its first argument, so not with an empty pack.
\<close>

fun checks_handle :: "bool \<Rightarrow> Statement_op \<Rightarrow> bool" where
  "checks_handle md (S_getParamIndex n) = True"
| "checks_handle md (S_getParamName i) = True"
| "checks_handle md (S_param_name n) = True"
| "checks_handle md (S_bind i v) = True"
| "checks_handle md (S_bind_name n v) = True"
| "checks_handle md (S_bindAll args) = (args \<noteq> [])"
| "checks_handle md S_columnCount = True"
| "checks_handle md S_count = True"
| "checks_handle md (S_getColumnType i) = True"
| "checks_handle md (S_getColumnDeclType i) = True"
| "checks_handle md (S_getColumnName i) = True"
| "checks_handle md (S_getColumnOriginName i) = md"
| "checks_handle md (S_getColumnTableName i) = md"
| "checks_handle md (S_getColumnDatabaseName i) = md"
| "checks_handle md (S_getInt i) = True"
| "checks_handle md (S_getInt64 i) = True"
| "checks_handle md (S_getDouble i) = True"
| "checks_handle md (S_getString i) = True"
| "checks_handle md (S_getBlob i) = True"
| "checks_handle md S_step = True"
| "checks_handle md S_exec = True"
| "checks_handle md S_execute = True"
| "checks_handle md S_reset = True"
| "checks_handle md S_clearBindings = True"
| "checks_handle md S_reuse = True"
| "checks_handle md other = False"

text \<open>
  The calls that take a column name: \<^verbatim>\<open>getColumnIndex(name)\<close> is evaluated first, and
  the getter of the same name by index is called with its result.
\<close>

fun by_column_name :: "Statement_op \<Rightarrow> bool" where
  "by_column_name (S_getColumnType_name n) = True"
| "by_column_name (S_getColumnDeclType_name n) = True"
| "by_column_name (S_getColumnOriginName_name n) = True"
| "by_column_name (S_getColumnTableName_name n) = True"
| "by_column_name (S_getColumnDatabaseName_name n) = True"
| "by_column_name (S_getInt_name n) = True"
| "by_column_name (S_getInt64_name n) = True"
| "by_column_name (S_getDouble_name n) = True"
| "by_column_name (S_getString_name n) = True"
| "by_column_name (S_getBlob_name n) = True"
| "by_column_name other = False"

fun SQLite_checks_handle :: "SQLite_op \<Rightarrow> bool" where
  "SQLite_checks_handle (C_prepare sql persistent) = True"
| "SQLite_checks_handle (C_exec sql) = True"
| "SQLite_checks_handle (C_execute sql) = True"
| "SQLite_checks_handle other = False"

definition statement_not_initialized :: exn where
  "statement_not_initialized = OtherError ''SQLite statement not initialized''"

definition connection_not_initialized :: exn where
  "connection_not_initialized = OtherError ''SQLite database connection not initialized''"

text \<open>A result raises when it is a thrown exception of the five kinds.\<close>

definition raises :: "exn + 'a \<Rightarrow> bool" where
  "raises r = (case r of Inl e \<Rightarrow> five_kinds e | Inr v \<Rightarrow> False)"



text \<open>
  The engine's finalize hands back the error of the statement's last evaluation; the
  call \<^verbatim>\<open>finalize()\<close> is within defined behaviour when the handle is null or that
  result is \<^verbatim>\<open>SQLITE_OK\<close>.
\<close>

definition finalize_defined :: "'s sqlite3_api \<Rightarrow> 's \<Rightarrow> Statement \<Rightarrow> bool" where
  "finalize_defined api e s = (stmt s = nullptr \<or> fst (sqlite3_finalize api e (stmt s)) = SQLITE_OK)"

text \<open>
  The engine's contract for text: the byte count it reports after handing out a text
  pointer is the length of a prefix of the buffer behind the pointer (not negative, not
  past its end).
\<close>

definition text_length_within_buffer :: "'s sqlite3_api \<Rightarrow> 's \<Rightarrow> ptr \<Rightarrow> int \<Rightarrow> bool" where
  "text_length_within_buffer api e h i =
     (case sqlite3_column_text api e h i of
        (None, e1) \<Rightarrow> True
      | (Some buf, e1) \<Rightarrow> 0 \<le> sqlite3_column_bytes api e1 h i \<and> nat (sqlite3_column_bytes api e1 h i) \<le> length buf)"

text \<open>A result whose exception, if it is one, is of the five kinds.\<close>

definition throws_five_only :: "exn + 'a \<Rightarrow> bool" where
  "throws_five_only r = (case r of Inl e \<Rightarrow> five_kinds e | Inr v \<Rightarrow> True)"



section \<open>A scripted engine\<close>

text \<open>
  A small engine to run the wrapper on: its state holds the result codes that the next
  acting calls return in order (\<^verbatim>\<open>SQLITE_OK\<close> once they are used up), the diagnostics it
  reports, the handle it writes to an out-parameter, the column names of its statement,
  and the cell that every column read returns.
\<close>

record scripted =
  results :: "int list"
  last_code :: int
  last_message :: string
  last_offset :: int
  handle_out :: ptr
  names :: "string option list"
  cell_type :: int
  cell_int :: int
  cell_double :: double
  cell_bytes :: "string option"

definition next_result :: "scripted \<Rightarrow> int \<times> scripted" where
  "next_result e = (case results e of [] \<Rightarrow> (0, e) | r # rs \<Rightarrow> (r, e\<lparr>results := rs, last_code := r\<rparr>))"

definition name_at :: "string option list \<Rightarrow> int \<Rightarrow> string option" where
  "name_at ns i = (if 0 \<le> i \<and> nat i < length ns then ns ! nat i else None)"

definition scripted_api :: "scripted sqlite3_api" where
  "scripted_api =
     \<lparr> sqlite3_errcode = (\<lambda>e h. last_code e),
       sqlite3_extended_errcode = (\<lambda>e h. last_code e),
       sqlite3_errmsg = (\<lambda>e h. last_message e),
       sqlite3_error_offset = (\<lambda>e h. last_offset e),
       sqlite3_errstr = (\<lambda>rc. ''errstr''),
       sqlite3_threadsafe = (\<lambda>e. 1),
       sqlite3_config = (\<lambda>e opt. next_result e),
       sqlite3_open_v2 = (\<lambda>e name p flags. case next_result e of (r, e1) \<Rightarrow> ((r, handle_out e), e1)),
       sqlite3_close = (\<lambda>e h. next_result e),
       sqlite3_exec = (\<lambda>e h sql. next_result e),
       sqlite3_prepare_v3 = (\<lambda>e h sql flags p. case next_result e of (r, e1) \<Rightarrow> ((r, handle_out e), e1)),
       sqlite3_finalize = (\<lambda>e h. next_result e),
       sqlite3_db_handle = (\<lambda>e h. 1),
       sqlite3_step = (\<lambda>e h. next_result e),
       sqlite3_reset = (\<lambda>e h. next_result e),
       sqlite3_clear_bindings = (\<lambda>e h. next_result e),
       sqlite3_bind_parameter_index = (\<lambda>e h n. if n = '':a'' then 1 else 0),
       sqlite3_bind_parameter_name = (\<lambda>e h i. if i = 1 then Some '':a'' else None),
       sqlite3_bind_int = (\<lambda>e h i v. next_result e),
       sqlite3_bind_int64 = (\<lambda>e h i v. next_result e),
       sqlite3_bind_double = (\<lambda>e h i v. next_result e),
       sqlite3_bind_text = (\<lambda>e h i v n. next_result e),
       sqlite3_bind_blob = (\<lambda>e h i v n. next_result e),
       sqlite3_column_count = (\<lambda>e h. int (length (names e))),
       sqlite3_column_name = (\<lambda>e h i. name_at (names e) i),
       sqlite3_column_type = (\<lambda>e h i. cell_type e),
       sqlite3_column_decltype = (\<lambda>e h i. None),
       sqlite3_column_origin_name = (\<lambda>e h i. None),
       sqlite3_column_table_name = (\<lambda>e h i. None),
       sqlite3_column_database_name = (\<lambda>e h i. None),
       sqlite3_column_int = (\<lambda>e h i. cell_int e),
       sqlite3_column_int64 = (\<lambda>e h i. cell_int e),
       sqlite3_column_double = (\<lambda>e h i. cell_double e),
       sqlite3_column_text = (\<lambda>e h i. (cell_bytes e, e)),
       sqlite3_column_blob = (\<lambda>e h i. (cell_bytes e, e)),
       sqlite3_column_bytes = (\<lambda>e h i. case cell_bytes e of None \<Rightarrow> 0 | Some bs \<Rightarrow> int (length bs)) \<rparr>"

definition scripted_engine :: "int list \<Rightarrow> scripted" where
  "scripted_engine rs =
     \<lparr> results = rs, last_code = 0, last_message = ''not an error'', last_offset = - 1, handle_out = 7,
       names = [Some ''id'', Some ''name'', Some ''id''],
       cell_type = 5, cell_int = 0, cell_double = 0, cell_bytes = None \<rparr>"

definition scripted_world :: "int list \<Rightarrow> scripted world" where
  "scripted_world rs = \<lparr> engine = scripted_engine rs, trace = [] \<rparr>"

declare to_string_nat.simps [simp del]
declare initializeColumnIndices_loop.simps [simp del]

section \<open>Properties\<close>

subsection \<open>Engine constants and the message format\<close>

lemma sqlite3_h_distinct:
  "SQLITE_BUSY \<noteq> SQLITE_MISUSE" "SQLITE_ROW \<noteq> SQLITE_DONE" "SQLITE_OK \<noteq> SQLITE_ROW" "SQLITE_OK \<noteq> SQLITE_DONE"
  by (simp_all add: SQLITE_BUSY_def SQLITE_MISUSE_def SQLITE_ROW_def SQLITE_DONE_def SQLITE_OK_def)

lemma std_to_string_14: "std_to_string 14 = ''14''"
  by (simp add: std_to_string_def to_string_nat.simps digit_char_def)

lemma std_to_string_m1: "std_to_string (- 1) = ''-1''"
  by (simp add: std_to_string_def to_string_nat.simps digit_char_def)

lemma std_to_string_2067: "std_to_string 2067 = ''2067''"
  by (simp add: std_to_string_def to_string_nat.simps digit_char_def)

text \<open>
  C9. The \<^verbatim>\<open>what()\<close> message of a base \<^verbatim>\<open>Error\<close> built from a context string, an engine
  message, a primary code and an extended code is the context, a comma and a space,
  then \<^verbatim>\<open>SQLite error (<code>,<extended_code>): <engine message>\<close> when the context is
  not empty; with an empty context the message starts at \<^verbatim>\<open>SQLite error\<close>. Both forms
  are the format of the specification.
\<close>

theorem Error_what_format:
  "(ctx \<noteq> [] \<longrightarrow>
      what (Error_ctor ctx engine_message c ec) =
        ctx @ '', SQLite error ('' @ std_to_string c @ '','' @ std_to_string ec @ ''): '' @ engine_message) \<and>
   (ctx = [] \<longrightarrow>
      what (Error_ctor ctx engine_message c ec) =
        ''SQLite error ('' @ std_to_string c @ '','' @ std_to_string ec @ ''): '' @ engine_message) \<and>
   what (Error_ctor ctx engine_message c ec) = spec_message_format ctx c ec engine_message"
  by (simp add: Error_ctor_def spec_message_format_def)

theorem Error_what_format_witness:
  "what (Error_ctor ''failed to open database'' ''unable to open database file'' 14 2067)
     = ''failed to open database, SQLite error (14,2067): unable to open database file'' \<and>
   what (Error_ctor [] ''unable to open database file'' (- 1) 14)
     = ''SQLite error (-1,14): unable to open database file''"
  using Error_what_format [of "''failed to open database''" "''unable to open database file''" 14 2067]
        Error_what_format [of "[]" "''unable to open database file''" "- 1" 14]
  by (simp add: std_to_string_14 std_to_string_m1 std_to_string_2067)


subsection \<open>The classification protocol\<close>

lemma throwSQLiteError_without_sql:
  "throwSQLiteError api h msg [] w =
     (by_code api (engine w) h msg,
      w\<lparr>trace := trace w @ [(''sqlite3_errcode'', h), (''sqlite3_extended_errcode'', h), (''sqlite3_errmsg'', h)]\<rparr>)"
  by (simp add: throwSQLiteError_def query_def by_code_def diagnostics_def)

lemma throwSQLiteError_engine: "engine (snd (throwSQLiteError api h msg sql w)) = engine w"
  by (simp add: throwSQLiteError_def query_def split: prod.splits)

lemma throwSQLiteError_five_kinds: "five_kinds (fst (throwSQLiteError api h msg sql w))"
  by (simp add: throwSQLiteError_def query_def split: prod.splits)

lemma by_code_five_kinds: "five_kinds (by_code api e h msg)"
  by (simp add: by_code_def)

lemma scripted_diag [simp]:
  "sqlite3_errcode scripted_api e h = last_code e"
  "sqlite3_extended_errcode scripted_api e h = last_code e"
  "sqlite3_errmsg scripted_api e h = last_message e"
  "sqlite3_error_offset scripted_api e h = last_offset e"
  by (simp_all add: scripted_api_def)

text \<open>
  C1. When \<^verbatim>\<open>throwSQLiteError\<close> is given SQL text (a non-empty \<^verbatim>\<open>sql\<close>; the empty
  string is the default argument of the callers that have none), it reads the primary
  code, the extended code and the message, and then queries the engine's error offset.
  A non-negative offset gives \<^verbatim>\<open>SyntaxError\<close> whatever the primary code is; otherwise
  the primary code decides: \<^verbatim>\<open>SQLITE_BUSY\<close> gives \<^verbatim>\<open>BusyError\<close>, \<^verbatim>\<open>SQLITE_MISUSE\<close>
  gives \<^verbatim>\<open>MisuseError\<close>, any other code the base \<^verbatim>\<open>Error\<close>.
\<close>

theorem throwSQLiteError_classification:
  assumes "sql \<noteq> []"
  shows
   "trace (snd (throwSQLiteError api h msg sql w)) =
      trace w @ [(''sqlite3_errcode'', h), (''sqlite3_extended_errcode'', h),
                 (''sqlite3_errmsg'', h), (''sqlite3_error_offset'', h)] \<and>
    (0 \<le> sqlite3_error_offset api (engine w) h \<longrightarrow>
       fst (throwSQLiteError api h msg sql w) =
         SyntaxError (diagnostics api (engine w) h msg) sql (sqlite3_error_offset api (engine w) h)) \<and>
    (sqlite3_error_offset api (engine w) h < 0 \<and> sqlite3_errcode api (engine w) h = SQLITE_BUSY \<longrightarrow>
       fst (throwSQLiteError api h msg sql w) = BusyError (diagnostics api (engine w) h msg)) \<and>
    (sqlite3_error_offset api (engine w) h < 0 \<and> sqlite3_errcode api (engine w) h = SQLITE_MISUSE \<longrightarrow>
       fst (throwSQLiteError api h msg sql w) = MisuseError (diagnostics api (engine w) h msg)) \<and>
    (sqlite3_error_offset api (engine w) h < 0 \<and> sqlite3_errcode api (engine w) h \<noteq> SQLITE_BUSY
        \<and> sqlite3_errcode api (engine w) h \<noteq> SQLITE_MISUSE \<longrightarrow>
       fst (throwSQLiteError api h msg sql w) = Error (diagnostics api (engine w) h msg))"
  using assms
  by (auto simp add: throwSQLiteError_def query_def diagnostics_def SQLITE_BUSY_def SQLITE_MISUSE_def)

theorem throwSQLiteError_classification_witness:
  "''SELEC 1'' \<noteq> [] \<and>
   fst (throwSQLiteError scripted_api 7 ''failed to prepare statement'' ''SELEC 1''
          \<lparr> engine = (scripted_engine [])\<lparr>last_code := 5, last_message := ''near SELEC'', last_offset := 0\<rparr>, trace = [] \<rparr>)
     = SyntaxError (Error_ctor ''failed to prepare statement'' ''near SELEC'' 5 5) ''SELEC 1'' 0 \<and>
   fst (throwSQLiteError scripted_api 7 ''failed to execute SQL query'' ''SELECT 1''
          \<lparr> engine = (scripted_engine [])\<lparr>last_code := 5, last_message := ''database is locked''\<rparr>, trace = [] \<rparr>)
     = BusyError (Error_ctor ''failed to execute SQL query'' ''database is locked'' 5 5)"
  using throwSQLiteError_classification [of "''SELEC 1''" scripted_api 7 "''failed to prepare statement''"
          "\<lparr> engine = (scripted_engine [])\<lparr>last_code := 5, last_message := ''near SELEC'', last_offset := 0\<rparr>, trace = [] \<rparr>"]
        throwSQLiteError_classification [of "''SELECT 1''" scripted_api 7 "''failed to execute SQL query''"
          "\<lparr> engine = (scripted_engine [])\<lparr>last_code := 5, last_message := ''database is locked''\<rparr>, trace = [] \<rparr>"]
  by (simp add: diagnostics_def scripted_engine_def SQLITE_BUSY_def)



subsection \<open>Callers of the classification\<close>

lemma SQLite_exec_failure:
  "db c \<noteq> nullptr \<Longrightarrow> fst (sqlite3_exec api (engine w) (db c) sql) \<noteq> SQLITE_OK \<Longrightarrow>
   fst (SQLite_exec api c sql w) =
     Inl (fst (throwSQLiteError api (db c) ''failed to execute SQL query'' sql
                 (snd (invoke ''sqlite3_exec'' (db c) (\<lambda>e. sqlite3_exec api e (db c) sql) w))))"
  by (simp add: SQLite_exec_def SQLite_ensure_def invoke_def case_prod_beta)

lemma Statement_ctor_failure:
  "fst (fst (sqlite3_prepare_v3 api (engine w) h sql (if persistent then SQLITE_PREPARE_PERSISTENT else 0) nullptr)) \<noteq> SQLITE_OK \<Longrightarrow>
   fst (Statement_ctor api h sql persistent w) =
     Inl (fst (throwSQLiteError api h ''failed to prepare statement'' sql
                 (snd (invoke ''sqlite3_prepare_v3'' h
                        (\<lambda>e. sqlite3_prepare_v3 api e h sql (if persistent then SQLITE_PREPARE_PERSISTENT else 0) nullptr) w))))"
  by (simp add: Statement_ctor_def invoke_def Let_def case_prod_beta)

lemma scripted_calls [simp]:
  "sqlite3_errstr scripted_api rc = ''errstr''"
  "sqlite3_threadsafe scripted_api e = 1"
  "sqlite3_config scripted_api e opt = next_result e"
  "sqlite3_open_v2 scripted_api e dbName p flags = (case next_result e of (r, e1) \<Rightarrow> ((r, handle_out e), e1))"
  "sqlite3_close scripted_api e h = next_result e"
  "sqlite3_exec scripted_api e h sql = next_result e"
  "sqlite3_prepare_v3 scripted_api e h sql flags p = (case next_result e of (r, e1) \<Rightarrow> ((r, handle_out e), e1))"
  "sqlite3_finalize scripted_api e h = next_result e"
  "sqlite3_db_handle scripted_api e h = 1"
  "sqlite3_step scripted_api e h = next_result e"
  "sqlite3_reset scripted_api e h = next_result e"
  "sqlite3_clear_bindings scripted_api e h = next_result e"
  "sqlite3_bind_parameter_index scripted_api e h pn = (if pn = '':a'' then 1 else 0)"
  "sqlite3_bind_parameter_name scripted_api e h i = (if i = 1 then Some '':a'' else None)"
  "sqlite3_bind_int scripted_api e h i v = next_result e"
  "sqlite3_bind_int64 scripted_api e h i v = next_result e"
  "sqlite3_bind_double scripted_api e h i d = next_result e"
  "sqlite3_bind_text scripted_api e h i t len = next_result e"
  "sqlite3_bind_blob scripted_api e h i b len = next_result e"
  "sqlite3_column_count scripted_api e h = int (length (names e))"
  "sqlite3_column_name scripted_api e h i = name_at (names e) i"
  "sqlite3_column_type scripted_api e h i = cell_type e"
  "sqlite3_column_decltype scripted_api e h i = None"
  "sqlite3_column_origin_name scripted_api e h i = None"
  "sqlite3_column_table_name scripted_api e h i = None"
  "sqlite3_column_database_name scripted_api e h i = None"
  "sqlite3_column_int scripted_api e h i = cell_int e"
  "sqlite3_column_int64 scripted_api e h i = cell_int e"
  "sqlite3_column_double scripted_api e h i = cell_double e"
  "sqlite3_column_text scripted_api e h i = (cell_bytes e, e)"
  "sqlite3_column_blob scripted_api e h i = (cell_bytes e, e)"
  "sqlite3_column_bytes scripted_api e h i = (case cell_bytes e of None \<Rightarrow> 0 | Some bs \<Rightarrow> int (length bs))"
  by (simp_all add: scripted_api_def)

lemmas scripted_defs = scripted_world_def scripted_engine_def next_result_def

subsection \<open>Closing and opening a connection\<close>

text \<open>
  C4. \<^verbatim>\<open>close()\<close> on a connection whose handle is null does nothing: no native call,
  no change. On a live handle it calls the engine's close; when that fails, \<^verbatim>\<open>close()\<close>
  throws the error that the classification builds from the primary code, and the handle
  stays as it was, so the close can be tried again; when it succeeds the handle becomes
  null. The handle is null afterwards exactly when it was null before or the engine's
  close succeeded.
\<close>

theorem SQLite_close_behaviour:
  "(db c = nullptr \<longrightarrow> SQLite_close api c w = (Inr (), c, w)) \<and>
   (db c \<noteq> nullptr \<and> fst (sqlite3_close api (engine w) (db c)) \<noteq> SQLITE_OK \<longrightarrow>
      fst (SQLite_close api c w) =
        Inl (by_code api (snd (sqlite3_close api (engine w) (db c))) (db c) ''failed to close connection'') \<and>
      fst (snd (SQLite_close api c w)) = c) \<and>
   (db c \<noteq> nullptr \<and> fst (sqlite3_close api (engine w) (db c)) = SQLITE_OK \<longrightarrow>
      fst (SQLite_close api c w) = Inr () \<and> db (fst (snd (SQLite_close api c w))) = nullptr) \<and>
   (db (fst (snd (SQLite_close api c w))) = nullptr \<longleftrightarrow>
      db c = nullptr \<or> fst (sqlite3_close api (engine w) (db c)) = SQLITE_OK)"
  by (simp add: SQLite_close_def invoke_def throwSQLiteError_without_sql case_prod_beta)

text \<open>
  C5. On a prepared statement (a non-null handle), \<^verbatim>\<open>step()\<close> returns true when the
  engine's step reports a row, false when it reports completion, and for any other
  result it throws the error that the classification builds for the statement's
  connection; it does not return in that case.
\<close>

theorem Statement_step_behaviour:
  assumes "stmt s \<noteq> nullptr"
  shows
   "(fst (sqlite3_step api (engine w) (stmt s)) = SQLITE_ROW \<longrightarrow> fst (Statement_step api s w) = Inr True) \<and>
    (fst (sqlite3_step api (engine w) (stmt s)) = SQLITE_DONE \<longrightarrow> fst (Statement_step api s w) = Inr False) \<and>
    (fst (sqlite3_step api (engine w) (stmt s)) \<noteq> SQLITE_ROW \<and>
     fst (sqlite3_step api (engine w) (stmt s)) \<noteq> SQLITE_DONE \<longrightarrow>
       fst (Statement_step api s w) =
         Inl (by_code api (snd (sqlite3_step api (engine w) (stmt s)))
                (sqlite3_db_handle api (snd (sqlite3_step api (engine w) (stmt s))) (stmt s))
                ''failed to step statement''))"
  using assms
  by (simp add: Statement_step_def Statement_ensure_def invoke_def query_def throwSQLiteError_without_sql
        SQLITE_ROW_def SQLITE_DONE_def case_prod_beta)

text \<open>
  C10. When the engine's open fails, \<^verbatim>\<open>open(name, flags)\<close> throws the classified error
  and the connection keeps the pointer that the engine wrote to the handle: the
  connection reports itself open exactly when that pointer is not null, and in that case
  the first thing its destructor does is to call the engine's close on that pointer.
\<close>

theorem SQLite_open_failure_keeps_handle:
  assumes "sqlite3_open_v2 api (engine w) dbName (db c) (toSQLiteOpenFlags flags) = ((rc, p), e1)"
    and "rc \<noteq> SQLITE_OK"
  shows
   "fst (SQLite_open api c dbName flags w) = Inl (by_code api e1 p ''failed to open database'') \<and>
    db (fst (snd (SQLite_open api c dbName flags w))) = p \<and>
    SQLite_operator_bool (fst (snd (SQLite_open api c dbName flags w))) = (p \<noteq> nullptr) \<and>
    (p \<noteq> nullptr \<longrightarrow>
       take (Suc (length (trace wd))) (trace (snd (SQLite_dtor api (fst (snd (SQLite_open api c dbName flags w))) wd)))
         = trace wd @ [(''sqlite3_close'', p)])"
  using assms
  by (simp add: SQLite_open_def SQLite_dtor_def SQLite_close_def SQLite_operator_bool_def invoke_def Let_def
        throwSQLiteError_without_sql case_prod_beta)



theorem SQLite_close_behaviour_witness:
  "SQLite_close scripted_api \<lparr> db = nullptr \<rparr> (scripted_world [5]) = (Inr (), \<lparr> db = nullptr \<rparr>, scripted_world [5]) \<and>
   fst (SQLite_close scripted_api \<lparr> db = 7 \<rparr> (scripted_world [5]))
     = Inl (BusyError (Error_ctor ''failed to close connection'' ''not an error'' 5 5)) \<and>
   fst (snd (SQLite_close scripted_api \<lparr> db = 7 \<rparr> (scripted_world [5]))) = \<lparr> db = 7 \<rparr> \<and>
   fst (SQLite_close scripted_api \<lparr> db = 7 \<rparr> (scripted_world [])) = Inr () \<and>
   fst (snd (SQLite_close scripted_api \<lparr> db = 7 \<rparr> (scripted_world []))) = \<lparr> db = nullptr \<rparr>"
  using SQLite_close_behaviour [of "\<lparr> db = nullptr \<rparr>" scripted_api "scripted_world [5]"]
        SQLite_close_behaviour [of "\<lparr> db = 7 \<rparr>" scripted_api "scripted_world [5]"]
        SQLite_close_behaviour [of "\<lparr> db = 7 \<rparr>" scripted_api "scripted_world []"]
  by (simp add: scripted_defs by_code_def diagnostics_def SQLITE_OK_def SQLITE_BUSY_def)

theorem Statement_step_behaviour_witness:
  "stmt \<lparr> stmt = 3, columnIndices = Map.empty \<rparr> \<noteq> nullptr \<and>
   fst (Statement_step scripted_api \<lparr> stmt = 3, columnIndices = Map.empty \<rparr> (scripted_world [100])) = Inr True \<and>
   fst (Statement_step scripted_api \<lparr> stmt = 3, columnIndices = Map.empty \<rparr> (scripted_world [101])) = Inr False \<and>
   fst (Statement_step scripted_api \<lparr> stmt = 3, columnIndices = Map.empty \<rparr> (scripted_world [21]))
     = Inl (MisuseError (Error_ctor ''failed to step statement'' ''not an error'' 21 21))"
  using Statement_step_behaviour [of "\<lparr> stmt = 3, columnIndices = Map.empty \<rparr>" scripted_api "scripted_world [100]"]
        Statement_step_behaviour [of "\<lparr> stmt = 3, columnIndices = Map.empty \<rparr>" scripted_api "scripted_world [101]"]
        Statement_step_behaviour [of "\<lparr> stmt = 3, columnIndices = Map.empty \<rparr>" scripted_api "scripted_world [21]"]
  by (simp add: scripted_defs by_code_def diagnostics_def SQLITE_ROW_def SQLITE_DONE_def SQLITE_BUSY_def SQLITE_MISUSE_def)

theorem SQLite_open_failure_keeps_handle_witness:
  "sqlite3_open_v2 scripted_api (engine (scripted_world [14])) ''/no/such.db'' (db SQLite_default_ctor)
       (toSQLiteOpenFlags OpenFlags_ReadOnly)
     = ((14, 7), (scripted_engine [14])\<lparr>results := [], last_code := 14\<rparr>) \<and>
   14 \<noteq> SQLITE_OK \<and>
   fst (SQLite_open scripted_api SQLite_default_ctor ''/no/such.db'' OpenFlags_ReadOnly (scripted_world [14]))
     = Inl (Error (Error_ctor ''failed to open database'' ''not an error'' 14 14)) \<and>
   db (fst (snd (SQLite_open scripted_api SQLite_default_ctor ''/no/such.db'' OpenFlags_ReadOnly (scripted_world [14]))))
     = 7 \<and>
   SQLite_operator_bool (fst (snd (SQLite_open scripted_api SQLite_default_ctor ''/no/such.db'' OpenFlags_ReadOnly (scripted_world [14])))) \<and>
   trace (snd (SQLite_dtor scripted_api
                 (fst (snd (SQLite_open scripted_api SQLite_default_ctor ''/no/such.db'' OpenFlags_ReadOnly (scripted_world [14]))))
                 (scripted_world [])))
     = [(''sqlite3_close'', 7)]"
proof -
  have a: "sqlite3_open_v2 scripted_api (engine (scripted_world [14])) ''/no/such.db'' (db SQLite_default_ctor)
       (toSQLiteOpenFlags OpenFlags_ReadOnly)
     = ((14, 7), (scripted_engine [14])\<lparr>results := [], last_code := 14\<rparr>)"
    by (simp add: scripted_defs)
  have b: "14 \<noteq> SQLITE_OK"
    by (simp add: SQLITE_OK_def)
  have c: "db (fst (snd (SQLite_open scripted_api SQLite_default_ctor ''/no/such.db'' OpenFlags_ReadOnly (scripted_world [14])))) = 7"
    using SQLite_open_failure_keeps_handle [OF a b] by simp
  have d: "trace (snd (SQLite_dtor scripted_api
                 (fst (snd (SQLite_open scripted_api SQLite_default_ctor ''/no/such.db'' OpenFlags_ReadOnly (scripted_world [14]))))
                 (scripted_world [])))
     = [(''sqlite3_close'', 7)]"
    unfolding SQLite_dtor_def SQLite_close_def c
    by (simp add: invoke_def scripted_defs SQLITE_OK_def)
  have e: "by_code scripted_api ((scripted_engine [14])\<lparr>results := [], last_code := 14\<rparr>) 7 ''failed to open database''
      = Error (Error_ctor ''failed to open database'' ''not an error'' 14 14)"
    by (simp add: by_code_def diagnostics_def scripted_engine_def SQLITE_BUSY_def SQLITE_MISUSE_def)
  show ?thesis
    using SQLite_open_failure_keeps_handle [OF a b, of "scripted_world []"] a b d e
    by simp
qed



subsection \<open>The column index map\<close>

lemma query_engine [simp]: "engine (snd (query name h f w)) = engine w"
  by (simp add: query_def)

lemma query_fst [simp]: "fst (query name h f w) = f (engine w)"
  by (simp add: query_def)

lemma stmt_case_update [simp]:
  "stmt (case x of Some columnName \<Rightarrow> s\<lparr>columnIndices := f columnName\<rparr> | None \<Rightarrow> s) = stmt s"
  by (cases x) simp_all

lemma loop_stmt_engine:
  "stmt (fst (initializeColumnIndices_loop api s n i w)) = stmt s \<and>
   engine (snd (initializeColumnIndices_loop api s n i w)) = engine w"
proof (induction api s n i w rule: initializeColumnIndices_loop.induct)
  case (1 api s n i w)
  show ?case
  proof (cases "i < n")
    case True
    with 1 show ?thesis
      by (subst (1 2) initializeColumnIndices_loop.simps) (simp split: option.splits)
  next
    case False
    then show ?thesis
      by (subst (1 2) initializeColumnIndices_loop.simps) simp
  qed
qed

lemma loop_absent:
  "\<forall>k. i \<le> k \<and> k < n \<longrightarrow> sqlite3_column_name api (engine w) (stmt s) k \<noteq> Some name \<Longrightarrow>
   columnIndices (fst (initializeColumnIndices_loop api s n i w)) name = columnIndices s name"
proof (induction api s n i w rule: initializeColumnIndices_loop.induct)
  case (1 api s n i w)
  show ?case
  proof (cases "i < n")
    case True
    have here: "sqlite3_column_name api (engine w) (stmt s) i \<noteq> Some name"
      using "1.prems" True by simp
    have later: "\<forall>k. i + 1 \<le> k \<and> k < n \<longrightarrow> sqlite3_column_name api (engine w) (stmt s) k \<noteq> Some name"
      using "1.prems" by simp
    show ?thesis
      using True here "1.IH" [OF True] later
      by (subst initializeColumnIndices_loop.simps) (auto split: option.splits)
  next
    case False
    then show ?thesis
      by (subst initializeColumnIndices_loop.simps) simp
  qed
qed

lemma loop_last_wins:
  "i \<le> j \<Longrightarrow> j < n \<Longrightarrow> sqlite3_column_name api (engine w) (stmt s) j = Some name \<Longrightarrow>
   \<forall>k. j < k \<and> k < n \<longrightarrow> sqlite3_column_name api (engine w) (stmt s) k \<noteq> Some name \<Longrightarrow>
   columnIndices (fst (initializeColumnIndices_loop api s n i w)) name = Some j"
proof (induction api s n i w rule: initializeColumnIndices_loop.induct)
  case (1 api s n i w)
  have lt: "i < n" using "1.prems" by simp
  let ?s1 = "case fst (query ''sqlite3_column_name'' (stmt s) (\<lambda>e. sqlite3_column_name api e (stmt s) i) w) of
               Some columnName \<Rightarrow> s\<lparr>columnIndices := (columnIndices s)(columnName \<mapsto> i)\<rparr> | None \<Rightarrow> s"
  let ?w1 = "snd (query ''sqlite3_column_name'' (stmt s) (\<lambda>e. sqlite3_column_name api e (stmt s) i) w)"
  have unfold: "initializeColumnIndices_loop api s n i w = initializeColumnIndices_loop api ?s1 n (i + 1) ?w1"
    using lt by (subst initializeColumnIndices_loop.simps) simp
  have s1: "stmt ?s1 = stmt s" by (simp split: option.splits)
  have w1: "engine ?w1 = engine w" by simp
  show ?case
  proof (cases "i = j")
    case True
    have "columnIndices (fst (initializeColumnIndices_loop api ?s1 n (i + 1) ?w1)) name = columnIndices ?s1 name"
      using "1.prems"(4) True by (intro loop_absent) (simp add: s1)
    also have "\<dots> = Some j"
      using "1.prems"(3) True by simp
    finally show ?thesis by (simp only: unfold)
  next
    case False
    then have "i + 1 \<le> j" using "1.prems"(1) by simp
    then have "columnIndices (fst (initializeColumnIndices_loop api ?s1 n (i + 1) ?w1)) name = Some j"
      using "1.prems" by (intro "1.IH" [OF lt]) (simp_all add: s1)
    then show ?thesis by (simp only: unfold)
  qed
qed

lemma Statement_ctor_success:
  assumes "Statement_ctor api h sql persistent w = (Inr s, wp)"
  shows "\<exists>w1. s = fst (initializeColumnIndices_loop api \<lparr> stmt = stmt s, columnIndices = Map.empty \<rparr>
                        (sqlite3_column_count api (engine wp) (stmt s)) 0 w1) \<and> engine w1 = engine wp"
proof -
  let ?pf = "if persistent then SQLITE_PREPARE_PERSISTENT else 0"
  let ?r = "invoke ''sqlite3_prepare_v3'' h (\<lambda>e. sqlite3_prepare_v3 api e h sql ?pf nullptr) w"
  let ?p = "snd (fst ?r)"
  let ?s0 = "\<lparr> stmt = ?p, columnIndices = Map.empty \<rparr>"
  let ?wq = "snd (query ''sqlite3_column_count'' ?p (\<lambda>e. sqlite3_column_count api e ?p) (snd ?r))"
  let ?n = "sqlite3_column_count api (engine (snd ?r)) ?p"
  have ok: "fst (fst ?r) = SQLITE_OK"
    using assms by (auto simp add: Statement_ctor_def Let_def case_prod_beta split: if_splits)
  have s: "s = fst (initializeColumnIndices_loop api ?s0 ?n 0 ?wq)"
    and wp: "wp = snd (initializeColumnIndices_loop api ?s0 ?n 0 ?wq)"
    using assms ok by (auto simp add: Statement_ctor_def Let_def case_prod_beta initializeColumnIndices_def)
  have st: "stmt s = ?p"
    using loop_stmt_engine [of api ?s0 ?n 0 ?wq] s by simp
  have en: "engine wp = engine (snd ?r)"
    using loop_stmt_engine [of api ?s0 ?n 0 ?wq] wp by simp
  have "s = fst (initializeColumnIndices_loop api \<lparr> stmt = stmt s, columnIndices = Map.empty \<rparr>
                  (sqlite3_column_count api (engine wp) (stmt s)) 0 ?wq) \<and> engine ?wq = engine wp"
    using s st en by simp
  then show ?thesis by blast
qed


subsection \<open>Which operations change the object\<close>

lemma call_wrappers_obj [simp]:
  "fst (snd (mutable_call f x)) = fst (snd x)"
  "fst (snd (const_call g obj y)) = obj"
  by (simp_all add: mutable_call_def const_call_def case_prod_beta)

lemma Statement_bind_obj [simp]: "fst (snd (Statement_bind api s i v w)) = s"
  by (cases v)
     (simp_all add: Statement_bind_int_def Statement_bind_int64_def Statement_bind_double_def
        Statement_bind_text_def Statement_bind_blob_def case_prod_beta split: sum.splits)

lemma Statement_bind_name_obj [simp]: "fst (snd (Statement_bind_name api s n v w)) = s"
  by (simp add: Statement_bind_name_def case_prod_beta split: sum.splits)

lemma bindHelper_obj [simp]: "fst (snd (bindHelper api s i args w)) = s"
proof (induction args arbitrary: i w)
  case Nil
  show ?case by simp
next
  case (Cons v args)
  have same: "fst (snd (Statement_bind api s i v w)) = s" by simp
  show ?case
  proof (cases "fst (Statement_bind api s i v w)")
    case (Inl e)
    then show ?thesis using same by (simp add: case_prod_beta)
  next
    case (Inr u)
    then show ?thesis using same Cons.IH by (simp add: case_prod_beta)
  qed
qed

lemma Statement_step_obj [simp]: "fst (snd (Statement_step api s w)) = s"
  by (simp add: Statement_step_def case_prod_beta split: sum.splits)

lemma Statement_reset_obj [simp]: "fst (snd (Statement_reset api s w)) = s"
  by (simp add: Statement_reset_def case_prod_beta split: sum.splits)

lemma Statement_clearBindings_obj [simp]: "fst (snd (Statement_clearBindings api s w)) = s"
  by (simp add: Statement_clearBindings_def case_prod_beta split: sum.splits)

lemma Statement_reuse_obj [simp]: "fst (snd (Statement_reuse api s w)) = s"
proof (cases "fst (Statement_reset api s w)")
  case (Inl e)
  then show ?thesis
    using Statement_reset_obj [of api s w] by (simp add: Statement_reuse_def case_prod_beta)
next
  case (Inr u)
  then show ?thesis
    using Statement_reset_obj [of api s w] by (simp add: Statement_reuse_def case_prod_beta)
qed

lemma Statement_finalize_obj:
  "fst (snd (Statement_finalize api s w)) = s \<or> fst (snd (Statement_finalize api s w)) = s\<lparr>stmt := nullptr\<rparr>"
  by (simp add: Statement_finalize_def case_prod_beta)

lemma Statement_finalize_columnIndices [simp]:
  "columnIndices (fst (snd (Statement_finalize api s w))) = columnIndices s"
  using Statement_finalize_obj [of api s w] by auto

lemma Statement_call_columnIndices:
  "columnIndices (fst (snd (Statement_call md api s op w))) = columnIndices s"
  by (cases op) (simp_all add: Statement_bindAll_def Statement_exec_def Statement_execute_def)

text \<open>
  C7. The map from column names to indices of a prepared statement is what the
  constructor built from the engine's column names: a name resolves to the index of its
  last occurrence among the columns (an earlier column of the same name is overwritten),
  a name that no column has, and so any name that is not in the map, makes
  \<^verbatim>\<open>getColumnIndex\<close> throw \<^verbatim>\<open>OtherError\<close>; and no call of the public interface changes
  the map afterwards (\<^verbatim>\<open>finalize\<close> included). Only the move operations, which are
  not calls of \<open>Statement_call\<close>, assign it.
\<close>

theorem columnIndices_fixed_at_preparation:
  assumes "Statement_ctor api h sql persistent w = (Inr s, wp)"
  shows
   "(\<forall>name j. 0 \<le> j \<and> j < sqlite3_column_count api (engine wp) (stmt s)
        \<and> sqlite3_column_name api (engine wp) (stmt s) j = Some name
        \<and> (\<forall>k. j < k \<and> k < sqlite3_column_count api (engine wp) (stmt s)
               \<longrightarrow> sqlite3_column_name api (engine wp) (stmt s) k \<noteq> Some name)
        \<longrightarrow> Statement_getColumnIndex s name = Inr j) \<and>
    (\<forall>name. (\<forall>k. 0 \<le> k \<and> k < sqlite3_column_count api (engine wp) (stmt s)
               \<longrightarrow> sqlite3_column_name api (engine wp) (stmt s) k \<noteq> Some name)
        \<longrightarrow> Statement_getColumnIndex s name = Inl (OtherError (''column not found: '' @ name))) \<and>
    (\<forall>name. columnIndices s name = None
        \<longrightarrow> Statement_getColumnIndex s name = Inl (OtherError (''column not found: '' @ name))) \<and>
    (\<forall>md op wa. columnIndices (fst (snd (Statement_call md api s op wa))) = columnIndices s)"
proof -
  obtain w1 where s: "s = fst (initializeColumnIndices_loop api \<lparr> stmt = stmt s, columnIndices = Map.empty \<rparr>
                        (sqlite3_column_count api (engine wp) (stmt s)) 0 w1)"
    and w1: "engine w1 = engine wp"
    using Statement_ctor_success [OF assms] by blast
  let ?n = "sqlite3_column_count api (engine wp) (stmt s)"
  let ?s0 = "\<lparr> stmt = stmt s, columnIndices = Map.empty \<rparr>"
  have last: "Statement_getColumnIndex s name = Inr j"
    if "0 \<le> j" "j < ?n" "sqlite3_column_name api (engine wp) (stmt s) j = Some name"
       "\<forall>k. j < k \<and> k < ?n \<longrightarrow> sqlite3_column_name api (engine wp) (stmt s) k \<noteq> Some name"
    for name j
  proof -
    have "columnIndices (fst (initializeColumnIndices_loop api ?s0 ?n 0 w1)) name = Some j"
      using that by (intro loop_last_wins) (simp_all add: w1)
    then have "columnIndices s name = Some j" using s by simp
    then show ?thesis by (simp add: Statement_getColumnIndex_def)
  qed
  have absent: "Statement_getColumnIndex s name = Inl (OtherError (''column not found: '' @ name))"
    if "\<forall>k. 0 \<le> k \<and> k < ?n \<longrightarrow> sqlite3_column_name api (engine wp) (stmt s) k \<noteq> Some name"
    for name
  proof -
    have "columnIndices (fst (initializeColumnIndices_loop api ?s0 ?n 0 w1)) name = columnIndices ?s0 name"
      using that by (intro loop_absent) (simp add: w1)
    then have "columnIndices s name = None" using s by simp
    then show ?thesis by (simp add: Statement_getColumnIndex_def)
  qed
  have unknown: "Statement_getColumnIndex s name = Inl (OtherError (''column not found: '' @ name))"
    if "columnIndices s name = None" for name
    using that by (simp add: Statement_getColumnIndex_def)
  show ?thesis
    using last absent unknown Statement_call_columnIndices by blast
qed


lemma scripted_prepare:
  "Statement_ctor scripted_api 1 ''SELECT id, name, id FROM t'' False (scripted_world [])
     = (Inr \<lparr> stmt = 7, columnIndices = [''id'' \<mapsto> 0, ''name'' \<mapsto> 1, ''id'' \<mapsto> 2] \<rparr>,
        \<lparr> engine = scripted_engine [],
          trace = [(''sqlite3_prepare_v3'', 1), (''sqlite3_column_count'', 7), (''sqlite3_column_name'', 7),
                   (''sqlite3_column_name'', 7), (''sqlite3_column_name'', 7)] \<rparr>)"
  by (simp add: Statement_ctor_def invoke_def query_def initializeColumnIndices_def
        initializeColumnIndices_loop.simps scripted_defs name_at_def SQLITE_OK_def Let_def)

theorem columnIndices_fixed_at_preparation_witness:
  "Statement_ctor scripted_api 1 ''SELECT id, name, id FROM t'' False (scripted_world [])
     = (Inr \<lparr> stmt = 7, columnIndices = [''id'' \<mapsto> 0, ''name'' \<mapsto> 1, ''id'' \<mapsto> 2] \<rparr>,
        \<lparr> engine = scripted_engine [],
          trace = [(''sqlite3_prepare_v3'', 1), (''sqlite3_column_count'', 7), (''sqlite3_column_name'', 7),
                   (''sqlite3_column_name'', 7), (''sqlite3_column_name'', 7)] \<rparr>) \<and>
   Statement_getColumnIndex \<lparr> stmt = 7, columnIndices = [''id'' \<mapsto> 0, ''name'' \<mapsto> 1, ''id'' \<mapsto> 2] \<rparr> ''id'' = Inr 2 \<and>
   Statement_getColumnIndex \<lparr> stmt = 7, columnIndices = [''id'' \<mapsto> 0, ''name'' \<mapsto> 1, ''id'' \<mapsto> 2] \<rparr> ''age''
     = Inl (OtherError ''column not found: age'') \<and>
   columnIndices (fst (snd (Statement_call False scripted_api
       \<lparr> stmt = 7, columnIndices = [''id'' \<mapsto> 0, ''name'' \<mapsto> 1, ''id'' \<mapsto> 2] \<rparr> S_finalize (scripted_world [1]))))
     = [''id'' \<mapsto> 0, ''name'' \<mapsto> 1, ''id'' \<mapsto> 2]"
proof -
  note t = columnIndices_fixed_at_preparation [OF scripted_prepare]
  have id: "Statement_getColumnIndex \<lparr> stmt = 7, columnIndices = [''id'' \<mapsto> 0, ''name'' \<mapsto> 1, ''id'' \<mapsto> 2] \<rparr> ''id'' = Inr 2"
    by (rule t [THEN conjunct1, rule_format, of 2 "''id''"]) (simp add: scripted_engine_def name_at_def)
  have age: "Statement_getColumnIndex \<lparr> stmt = 7, columnIndices = [''id'' \<mapsto> 0, ''name'' \<mapsto> 1, ''id'' \<mapsto> 2] \<rparr> ''age''
     = Inl (OtherError (''column not found: '' @ ''age''))"
    by (rule t [THEN conjunct2, THEN conjunct2, THEN conjunct1, rule_format, of "''age''"]) simp
  have keep: "columnIndices (fst (snd (Statement_call False scripted_api
       \<lparr> stmt = 7, columnIndices = [''id'' \<mapsto> 0, ''name'' \<mapsto> 1, ''id'' \<mapsto> 2] \<rparr> S_finalize (scripted_world [1]))))
     = columnIndices \<lparr> stmt = 7, columnIndices = [''id'' \<mapsto> 0, ''name'' \<mapsto> 1, ''id'' \<mapsto> 2] \<rparr>"
    by (rule t [THEN conjunct2, THEN conjunct2, THEN conjunct2, rule_format])
  show ?thesis
    using scripted_prepare id age keep by simp
qed



subsection \<open>Typed column reads\<close>

lemma Statement_getString_prepared:
  "stmt s \<noteq> nullptr \<Longrightarrow>
   fst (Statement_getString api s i w) =
     (case fst (sqlite3_column_text api (engine w) (stmt s) i) of
        None \<Rightarrow> Inr []
      | Some buf \<Rightarrow> std_string_of_buffer buf
          (sqlite3_column_bytes api (snd (sqlite3_column_text api (engine w) (stmt s) i)) (stmt s) i))"
  by (simp add: Statement_getString_def Statement_ensure_def invoke_def query_def case_prod_beta
        split: option.splits)

text \<open>
  C8. On a prepared statement (a non-null handle) and for every column index, the typed
  reads do not throw: \<^verbatim>\<open>getInt\<close>, \<^verbatim>\<open>getInt64\<close> and \<^verbatim>\<open>getDouble\<close> return what the
  engine's column read returns (so its zero for an absent value), \<^verbatim>\<open>getBlob\<close> returns
  the engine's pointer and byte count (a null pointer with the count the engine gives
  for it), and \<^verbatim>\<open>getString\<close> returns the empty string for a null text pointer and
  otherwise the bytes that the engine's count takes from its buffer, the count being
  within the buffer as the engine's contract has it.
\<close>

theorem typed_reads_never_raise:
  assumes "stmt s \<noteq> nullptr"
  shows
   "fst (Statement_getInt api s i w) = Inr (sqlite3_column_int api (engine w) (stmt s) i) \<and>
    fst (Statement_getInt64 api s i w) = Inr (sqlite3_column_int64 api (engine w) (stmt s) i) \<and>
    fst (Statement_getDouble api s i w) = Inr (sqlite3_column_double api (engine w) (stmt s) i) \<and>
    fst (Statement_getBlob api s i w) =
      Inr \<lparr> data = fst (sqlite3_column_blob api (engine w) (stmt s) i),
            size_blob = sqlite3_column_bytes api (snd (sqlite3_column_blob api (engine w) (stmt s) i)) (stmt s) i \<rparr> \<and>
    (fst (sqlite3_column_text api (engine w) (stmt s) i) = None \<longrightarrow>
       fst (Statement_getString api s i w) = Inr []) \<and>
    (text_length_within_buffer api (engine w) (stmt s) i \<longrightarrow>
       (\<exists>str. fst (Statement_getString api s i w) = Inr str)) \<and>
    (\<forall>buf. fst (sqlite3_column_text api (engine w) (stmt s) i) = Some buf
          \<and> text_length_within_buffer api (engine w) (stmt s) i \<longrightarrow>
       fst (Statement_getString api s i w) =
         Inr (take (nat (sqlite3_column_bytes api (snd (sqlite3_column_text api (engine w) (stmt s) i)) (stmt s) i)) buf))"
proof -
  have ints: "fst (Statement_getInt api s i w) = Inr (sqlite3_column_int api (engine w) (stmt s) i)"
    "fst (Statement_getInt64 api s i w) = Inr (sqlite3_column_int64 api (engine w) (stmt s) i)"
    "fst (Statement_getDouble api s i w) = Inr (sqlite3_column_double api (engine w) (stmt s) i)"
    using assms
    by (simp_all add: Statement_getInt_def Statement_getInt64_def Statement_getDouble_def
          Statement_ensure_def query_def)
  have blob: "fst (Statement_getBlob api s i w) =
      Inr \<lparr> data = fst (sqlite3_column_blob api (engine w) (stmt s) i),
            size_blob = sqlite3_column_bytes api (snd (sqlite3_column_blob api (engine w) (stmt s) i)) (stmt s) i \<rparr>"
    using assms by (simp add: Statement_getBlob_def Statement_ensure_def invoke_def query_def case_prod_beta)
  note str = Statement_getString_prepared [OF assms, of api i w]
  have null: "fst (sqlite3_column_text api (engine w) (stmt s) i) = None \<longrightarrow>
       fst (Statement_getString api s i w) = Inr []"
    using str by simp
  have some: "\<forall>buf. fst (sqlite3_column_text api (engine w) (stmt s) i) = Some buf
          \<and> text_length_within_buffer api (engine w) (stmt s) i \<longrightarrow>
       fst (Statement_getString api s i w) =
         Inr (take (nat (sqlite3_column_bytes api (snd (sqlite3_column_text api (engine w) (stmt s) i)) (stmt s) i)) buf)"
    using str
    by (auto simp add: text_length_within_buffer_def std_string_of_buffer_def case_prod_beta)
  have returns: "text_length_within_buffer api (engine w) (stmt s) i \<longrightarrow>
       (\<exists>str. fst (Statement_getString api s i w) = Inr str)"
    using null some by (cases "fst (sqlite3_column_text api (engine w) (stmt s) i)") auto
  show ?thesis
    using ints blob null some returns by blast
qed

theorem typed_reads_never_raise_witness:
  "stmt \<lparr> stmt = 7, columnIndices = Map.empty \<rparr> \<noteq> nullptr \<and>
   sqlite3_column_type scripted_api (scripted_engine []) 7 0 = SQLITE_NULL \<and>
   text_length_within_buffer scripted_api (scripted_engine []) 7 0 \<and>
   fst (Statement_getInt scripted_api \<lparr> stmt = 7, columnIndices = Map.empty \<rparr> 0 (scripted_world [])) = Inr 0 \<and>
   fst (Statement_getInt64 scripted_api \<lparr> stmt = 7, columnIndices = Map.empty \<rparr> 0 (scripted_world [])) = Inr 0 \<and>
   fst (Statement_getDouble scripted_api \<lparr> stmt = 7, columnIndices = Map.empty \<rparr> 0 (scripted_world [])) = Inr 0 \<and>
   fst (Statement_getString scripted_api \<lparr> stmt = 7, columnIndices = Map.empty \<rparr> 0 (scripted_world [])) = Inr [] \<and>
   fst (Statement_getBlob scripted_api \<lparr> stmt = 7, columnIndices = Map.empty \<rparr> 0 (scripted_world []))
     = Inr \<lparr> data = None, size_blob = 0 \<rparr> \<and>
   fst (Statement_getString scripted_api \<lparr> stmt = 7, columnIndices = Map.empty \<rparr> 0
          \<lparr> engine = (scripted_engine [])\<lparr>cell_bytes := Some ''Ada''\<rparr>, trace = [] \<rparr>) = Inr ''Ada''"
  using typed_reads_never_raise [of "\<lparr> stmt = 7, columnIndices = Map.empty \<rparr>" scripted_api 0 "scripted_world []"]
        typed_reads_never_raise [of "\<lparr> stmt = 7, columnIndices = Map.empty \<rparr>" scripted_api 0
           "\<lparr> engine = (scripted_engine [])\<lparr>cell_bytes := Some ''Ada''\<rparr>, trace = [] \<rparr>"]
  by (simp add: scripted_defs text_length_within_buffer_def SQLITE_NULL_def)



subsection \<open>Operations on a null handle\<close>

lemma returning_Inl [simp]: "returning f (Inl e) = Inl e"
  by (simp add: returning_def)

lemma returning_Inr [simp]: "returning f (Inr v) = Inr (f v)"
  by (simp add: returning_def)

lemma Statement_bind_null:
  "stmt s = nullptr \<Longrightarrow> Statement_bind api s i v w = (Inl statement_not_initialized, s, w)"
  by (cases v)
     (simp_all add: Statement_bind_int_def Statement_bind_int64_def Statement_bind_double_def
        Statement_bind_text_def Statement_bind_blob_def Statement_ensure_def statement_not_initialized_def)

lemma Statement_getParamIndex_null:
  "stmt s = nullptr \<Longrightarrow> Statement_getParamIndex api s n w = (Inl statement_not_initialized, w)"
  by (simp add: Statement_getParamIndex_def Statement_ensure_def statement_not_initialized_def)

lemma bindHelper_null:
  "stmt s = nullptr \<Longrightarrow> args \<noteq> [] \<Longrightarrow> bindHelper api s i args w = (Inl statement_not_initialized, s, w)"
  by (cases args) (simp_all add: Statement_bind_null)

lemma Statement_reset_null:
  "stmt s = nullptr \<Longrightarrow> Statement_reset api s w = (Inl statement_not_initialized, s, w)"
  by (simp add: Statement_reset_def Statement_ensure_def statement_not_initialized_def)

lemma Statement_step_null:
  "stmt s = nullptr \<Longrightarrow> Statement_step api s w = (Inl statement_not_initialized, s, w)"
  by (simp add: Statement_step_def Statement_ensure_def statement_not_initialized_def)

lemma Statement_null_handle_guard:
  assumes "stmt s = nullptr" and "checks_handle md op"
  shows "Statement_call md api s op w = (Inl statement_not_initialized, s, w)"
  using assms
  by (cases op)
     (simp_all add: mutable_call_def const_call_def Statement_bind_null Statement_getParamIndex_null
        bindHelper_null Statement_reset_null Statement_step_null Statement_bindAll_def
        Statement_bind_name_def Statement_param_name_def Statement_exec_def Statement_execute_def
        Statement_reuse_def Statement_getParamName_def Statement_columnCount_def Statement_count_def
        Statement_getColumnType_def Statement_getColumnDeclType_def Statement_getColumnName_def
        Statement_getColumnOriginName_def Statement_getColumnTableName_def
        Statement_getColumnDatabaseName_def Statement_getInt_def Statement_getInt64_def
        Statement_getDouble_def Statement_getString_def Statement_getBlob_def
        Statement_clearBindings_def Statement_ensure_def statement_not_initialized_def)

lemma Statement_null_handle_by_name:
  assumes "stmt s = nullptr" and "by_column_name op"
  shows "\<exists>m. Statement_call md api s op w = (Inl (OtherError m), s, w)"
  using assms
  by (cases op)
     (simp_all add: const_call_def Statement_getColumnIndex_def
        Statement_getColumnType_name_def Statement_getColumnDeclType_name_def
        Statement_getColumnOriginName_name_def Statement_getColumnTableName_name_def
        Statement_getColumnDatabaseName_name_def Statement_getInt_name_def Statement_getInt64_name_def
        Statement_getDouble_name_def Statement_getString_name_def Statement_getBlob_name_def
        Statement_getColumnType_def Statement_getColumnDeclType_def
        Statement_getColumnOriginName_def Statement_getColumnTableName_def
        Statement_getColumnDatabaseName_def Statement_getInt_def Statement_getInt64_def
        Statement_getDouble_def Statement_getString_def Statement_getBlob_def
        Statement_ensure_def split: option.splits)

lemma Statement_finalize_null:
  "stmt s = nullptr \<Longrightarrow> Statement_finalize api s w = (Inr (), s, w)"
  by (simp add: Statement_finalize_def)

lemma Statement_null_handle_no_native_call:
  assumes "stmt s = nullptr"
  shows "snd (snd (Statement_call md api s op w)) = w"
proof (cases "checks_handle md op")
  case True
  then show ?thesis by (simp add: Statement_null_handle_guard [OF assms True])
next
  case False
  show ?thesis
  proof (cases "by_column_name op")
    case True
    then show ?thesis using Statement_null_handle_by_name [OF assms True, of md api w] by auto
  next
    case nb: False
    show ?thesis
      using False nb assms
      by (cases op)
         (simp_all add: mutable_call_def Statement_finalize_null Statement_bindAll_def
            Statement_getColumnOriginName_def Statement_getColumnTableName_def
            Statement_getColumnDatabaseName_def const_call_def)
  qed
qed

lemma SQLite_null_handle_guard:
  assumes "db c = nullptr" and "SQLite_checks_handle op"
  shows "SQLite_call api c op w = (Inl connection_not_initialized, c, w)"
  using assms
  by (cases op)
     (simp_all add: mutable_call_def SQLite_prepare_def SQLite_exec_def SQLite_execute_def
        SQLite_ensure_def connection_not_initialized_def)


text \<open>
  C2 (as amended). Every operation whose body starts with the handle check raises
  \<^verbatim>\<open>OtherError\<close> ("not initialized") on a null handle, with the object and the world
  unchanged, so before any native call: on a Statement these are \<^verbatim>\<open>getParamIndex\<close>,
  \<^verbatim>\<open>getParamName\<close>, \<^verbatim>\<open>param(name)\<close>, every \<^verbatim>\<open>bind\<close>, \<^verbatim>\<open>bindAll\<close> with at least one
  argument, \<^verbatim>\<open>columnCount\<close>, \<^verbatim>\<open>count\<close>, the getters by index (the three metadata
  getters when the build has column metadata), \<^verbatim>\<open>step\<close>, \<^verbatim>\<open>exec\<close>, \<^verbatim>\<open>execute\<close>,
  \<^verbatim>\<open>reset\<close>, \<^verbatim>\<open>clearBindings\<close> and \<^verbatim>\<open>reuse\<close>; on a Connection \<^verbatim>\<open>prepare\<close>, \<^verbatim>\<open>exec\<close>
  and \<^verbatim>\<open>execute\<close>. A getter by column name resolves the name first and raises some
  \<^verbatim>\<open>OtherError\<close>, again with nothing changed. No Statement operation at all makes a
  native call on a null handle.
\<close>

theorem guarded_operations_reject_null_handle:
  "(\<forall>op. stmt s = nullptr \<and> checks_handle md op \<longrightarrow>
       Statement_call md api s op w = (Inl statement_not_initialized, s, w)) \<and>
   (\<forall>op. stmt s = nullptr \<and> by_column_name op \<longrightarrow>
       (\<exists>m. Statement_call md api s op w = (Inl (OtherError m), s, w))) \<and>
   (\<forall>op. stmt s = nullptr \<longrightarrow> snd (snd (Statement_call md api s op w)) = w) \<and>
   (\<forall>op. db c = nullptr \<and> SQLite_checks_handle op \<longrightarrow>
       SQLite_call api c op w = (Inl connection_not_initialized, c, w))"
proof (intro conjI allI impI)
  fix op
  assume "stmt s = nullptr \<and> checks_handle md op"
  then show "Statement_call md api s op w = (Inl statement_not_initialized, s, w)"
    by (simp add: Statement_null_handle_guard)
next
  fix op
  assume "stmt s = nullptr \<and> by_column_name op"
  then show "\<exists>m. Statement_call md api s op w = (Inl (OtherError m), s, w)"
    by (simp add: Statement_null_handle_by_name)
next
  fix op
  assume "stmt s = nullptr"
  then show "snd (snd (Statement_call md api s op w)) = w"
    by (rule Statement_null_handle_no_native_call)
next
  fix op
  assume "db c = nullptr \<and> SQLite_checks_handle op"
  then show "SQLite_call api c op w = (Inl connection_not_initialized, c, w)"
    by (simp add: SQLite_null_handle_guard)
qed

theorem guarded_operations_reject_null_handle_witness:
  "stmt Statement_default_ctor = nullptr \<and> checks_handle False S_step \<and>
   Statement_call False scripted_api Statement_default_ctor S_step (scripted_world [])
     = (Inl (OtherError ''SQLite statement not initialized''), Statement_default_ctor, scripted_world []) \<and>
   Statement_call False scripted_api Statement_default_ctor (S_bindAll [BindInt 1, BindText ''a'']) (scripted_world [])
     = (Inl (OtherError ''SQLite statement not initialized''), Statement_default_ctor, scripted_world []) \<and>
   db SQLite_default_ctor = nullptr \<and> SQLite_checks_handle (C_exec ''SELECT 1'') \<and>
   SQLite_call scripted_api SQLite_default_ctor (C_exec ''SELECT 1'') (scripted_world [])
     = (Inl (OtherError ''SQLite database connection not initialized''), SQLite_default_ctor, scripted_world [])"
  using guarded_operations_reject_null_handle [of Statement_default_ctor False scripted_api "scripted_world []" SQLite_default_ctor,
          THEN conjunct1, rule_format, of S_step]
        guarded_operations_reject_null_handle [of Statement_default_ctor False scripted_api "scripted_world []" SQLite_default_ctor,
          THEN conjunct1, rule_format, of "S_bindAll [BindInt 1, BindText ''a'']"]
        guarded_operations_reject_null_handle [of Statement_default_ctor False scripted_api "scripted_world []" SQLite_default_ctor,
          THEN conjunct2, THEN conjunct2, THEN conjunct2, rule_format, of "C_exec ''SELECT 1''"]
  by (simp add: Statement_default_ctor_def SQLite_default_ctor_def statement_not_initialized_def
        connection_not_initialized_def)

text \<open>
  The claim as stated fails on a default-constructed Statement and Connection (null
  handles): \<^verbatim>\<open>getColumnIndex\<close> has no handle check and raises "column not found",
  \<^verbatim>\<open>operator[](int)\<close> returns a view, and \<^verbatim>\<open>open\<close> opens.
\<close>

theorem guarded_operations_reject_null_handle_counterexample:
  "stmt Statement_default_ctor = nullptr \<and>
   fst (Statement_call False scripted_api Statement_default_ctor (S_getColumnIndex ''id'') (scripted_world []))
     = Inl (OtherError ''column not found: id'') \<and>
   fst (Statement_call False scripted_api Statement_default_ctor (S_subscript 0) (scripted_world []))
     = Inr (RColumn (Column 0)) \<and>
   db SQLite_default_ctor = nullptr \<and>
   fst (SQLite_call scripted_api SQLite_default_ctor (C_open ''test.db'' OpenFlags_ReadWrite) (scripted_world []))
     = Inr RVoid"
  by (simp add: Statement_default_ctor_def SQLite_default_ctor_def Statement_getColumnIndex_def
        Statement_subscript_def mutable_call_def SQLite_open_def invoke_def scripted_defs SQLITE_OK_def Let_def)

subsection \<open>Moved-from objects\<close>

lemma Statement_dtor_null:
  "stmt s = nullptr \<Longrightarrow> Statement_dtor api s w = (Completed (), w)"
  by (simp add: Statement_dtor_def Statement_finalize_null)

lemma SQLite_close_null:
  "db c = nullptr \<Longrightarrow> SQLite_close api c w = (Inr (), c, w)"
  by (simp add: SQLite_close_def)

lemma SQLite_dtor_null:
  "db c = nullptr \<Longrightarrow> SQLite_dtor api c w = (Completed (), w)"
  by (simp add: SQLite_dtor_def SQLite_close_null)

lemma Statement_move_assign_source:
  "Statement_move_assign api m this other w = (Completed (this1, other1), w1) \<Longrightarrow> stmt other1 = nullptr"
  by (auto simp add: Statement_move_assign_def case_prod_beta split: sum.splits if_splits)

lemma SQLite_move_assign_source:
  "SQLite_move_assign api this other w = (Completed (this1, other1), w1) \<Longrightarrow> db other1 = nullptr"
  by (auto simp add: SQLite_move_assign_def case_prod_beta split: sum.splits)

text \<open>
  C3 (as amended). After a move construction, and after a move assignment that
  completes, the source Statement or Connection has a null handle; every operation that
  checks the handle raises \<^verbatim>\<open>OtherError\<close> ("not initialized") on it with nothing changed,
  and its destructor completes without a native call.
\<close>

theorem moved_from_is_uninitialized:
  "(stmt (snd (Statement_move_ctor other)) = nullptr \<and>
    (\<forall>md op. checks_handle md op \<longrightarrow>
        Statement_call md api (snd (Statement_move_ctor other)) op w
          = (Inl statement_not_initialized, snd (Statement_move_ctor other), w)) \<and>
    Statement_dtor api (snd (Statement_move_ctor other)) w = (Completed (), w)) \<and>
   (\<forall>this1 other1 w1. Statement_move_assign api m this other w0 = (Completed (this1, other1), w1) \<longrightarrow>
      stmt other1 = nullptr \<and>
      (\<forall>md op. checks_handle md op \<longrightarrow>
          Statement_call md api other1 op w = (Inl statement_not_initialized, other1, w)) \<and>
      Statement_dtor api other1 w = (Completed (), w)) \<and>
   (db (snd (SQLite_move_ctor c)) = nullptr \<and>
    (\<forall>op. SQLite_checks_handle op \<longrightarrow>
        SQLite_call api (snd (SQLite_move_ctor c)) op w
          = (Inl connection_not_initialized, snd (SQLite_move_ctor c), w)) \<and>
    SQLite_dtor api (snd (SQLite_move_ctor c)) w = (Completed (), w)) \<and>
   (\<forall>d1 c1 w1. SQLite_move_assign api d c w0 = (Completed (d1, c1), w1) \<longrightarrow>
      db c1 = nullptr \<and>
      (\<forall>op. SQLite_checks_handle op \<longrightarrow>
          SQLite_call api c1 op w = (Inl connection_not_initialized, c1, w)) \<and>
      SQLite_dtor api c1 w = (Completed (), w))"
proof -
  have a: "stmt (snd (Statement_move_ctor other)) = nullptr"
    by (simp add: Statement_move_ctor_def)
  have b: "db (snd (SQLite_move_ctor c)) = nullptr"
    by (simp add: SQLite_move_ctor_def)
  have stmt_part: "(\<forall>md op. checks_handle md op \<longrightarrow>
          Statement_call md api x op w = (Inl statement_not_initialized, x, w)) \<and>
      Statement_dtor api x w = (Completed (), w)" if "stmt x = nullptr" for x
    using that by (simp add: Statement_null_handle_guard Statement_dtor_null)
  have conn_part: "(\<forall>op. SQLite_checks_handle op \<longrightarrow>
          SQLite_call api x op w = (Inl connection_not_initialized, x, w)) \<and>
      SQLite_dtor api x w = (Completed (), w)" if "db x = nullptr" for x
    using that by (simp add: SQLite_null_handle_guard SQLite_dtor_null)
  have c1: "stmt (snd (Statement_move_ctor other)) = nullptr \<and>
    (\<forall>md op. checks_handle md op \<longrightarrow>
        Statement_call md api (snd (Statement_move_ctor other)) op w
          = (Inl statement_not_initialized, snd (Statement_move_ctor other), w)) \<and>
    Statement_dtor api (snd (Statement_move_ctor other)) w = (Completed (), w)"
    using a stmt_part [OF a] by simp
  have c2: "\<forall>this1 other1 w1. Statement_move_assign api m this other w0 = (Completed (this1, other1), w1) \<longrightarrow>
      stmt other1 = nullptr \<and>
      (\<forall>md op. checks_handle md op \<longrightarrow>
          Statement_call md api other1 op w = (Inl statement_not_initialized, other1, w)) \<and>
      Statement_dtor api other1 w = (Completed (), w)"
  proof (intro allI impI)
    fix this1 other1 w1
    assume "Statement_move_assign api m this other w0 = (Completed (this1, other1), w1)"
    then have n: "stmt other1 = nullptr" by (rule Statement_move_assign_source)
    show "stmt other1 = nullptr \<and>
      (\<forall>md op. checks_handle md op \<longrightarrow>
          Statement_call md api other1 op w = (Inl statement_not_initialized, other1, w)) \<and>
      Statement_dtor api other1 w = (Completed (), w)"
      using n stmt_part [OF n] by simp
  qed
  have c3: "db (snd (SQLite_move_ctor c)) = nullptr \<and>
    (\<forall>op. SQLite_checks_handle op \<longrightarrow>
        SQLite_call api (snd (SQLite_move_ctor c)) op w
          = (Inl connection_not_initialized, snd (SQLite_move_ctor c), w)) \<and>
    SQLite_dtor api (snd (SQLite_move_ctor c)) w = (Completed (), w)"
    using b conn_part [OF b] by simp
  have c4: "\<forall>d1 c1 w1. SQLite_move_assign api d c w0 = (Completed (d1, c1), w1) \<longrightarrow>
      db c1 = nullptr \<and>
      (\<forall>op. SQLite_checks_handle op \<longrightarrow>
          SQLite_call api c1 op w = (Inl connection_not_initialized, c1, w)) \<and>
      SQLite_dtor api c1 w = (Completed (), w)"
  proof (intro allI impI)
    fix d1 c1 w1
    assume "SQLite_move_assign api d c w0 = (Completed (d1, c1), w1)"
    then have n: "db c1 = nullptr" by (rule SQLite_move_assign_source)
    show "db c1 = nullptr \<and>
      (\<forall>op. SQLite_checks_handle op \<longrightarrow>
          SQLite_call api c1 op w = (Inl connection_not_initialized, c1, w)) \<and>
      SQLite_dtor api c1 w = (Completed (), w)"
      using n conn_part [OF n] by simp
  qed
  show ?thesis
    by (rule conjI [OF c1 conjI [OF c2 conjI [OF c3 c4]]])
qed


theorem moved_from_is_uninitialized_witness:
  "stmt (snd (Statement_move_ctor \<lparr> stmt = 7, columnIndices = [''id'' \<mapsto> 0, ''name'' \<mapsto> 1, ''id'' \<mapsto> 2] \<rparr>)) = nullptr \<and>
   Statement_call False scripted_api (snd (Statement_move_ctor \<lparr> stmt = 7, columnIndices = [''id'' \<mapsto> 0, ''name'' \<mapsto> 1, ''id'' \<mapsto> 2] \<rparr>)) S_step (scripted_world [])
     = (Inl (OtherError ''SQLite statement not initialized''), snd (Statement_move_ctor \<lparr> stmt = 7, columnIndices = [''id'' \<mapsto> 0, ''name'' \<mapsto> 1, ''id'' \<mapsto> 2] \<rparr>), scripted_world []) \<and>
   Statement_dtor scripted_api (snd (Statement_move_ctor \<lparr> stmt = 7, columnIndices = [''id'' \<mapsto> 0, ''name'' \<mapsto> 1, ''id'' \<mapsto> 2] \<rparr>)) (scripted_world []) = (Completed (), scripted_world []) \<and>
   Statement_move_assign scripted_api Map.empty Statement_default_ctor \<lparr> stmt = 7, columnIndices = [''id'' \<mapsto> 0, ''name'' \<mapsto> 1, ''id'' \<mapsto> 2] \<rparr> (scripted_world [])
     = (Completed (\<lparr> stmt = 7, columnIndices = [''id'' \<mapsto> 0, ''name'' \<mapsto> 1, ''id'' \<mapsto> 2] \<rparr>, \<lparr> stmt = nullptr, columnIndices = Map.empty \<rparr>), scripted_world []) \<and>
   Statement_call False scripted_api \<lparr> stmt = nullptr, columnIndices = Map.empty \<rparr> (S_getInt 0) (scripted_world [])
     = (Inl (OtherError ''SQLite statement not initialized''), \<lparr> stmt = nullptr, columnIndices = Map.empty \<rparr>, scripted_world []) \<and>
   SQLite_call scripted_api (snd (SQLite_move_ctor \<lparr> db = 7 \<rparr>)) (C_prepare ''SELECT 1'' False) (scripted_world [])
     = (Inl (OtherError ''SQLite database connection not initialized''), snd (SQLite_move_ctor \<lparr> db = 7 \<rparr>), scripted_world []) \<and>
   SQLite_dtor scripted_api (snd (SQLite_move_ctor \<lparr> db = 7 \<rparr>)) (scripted_world []) = (Completed (), scripted_world []) \<and>
   SQLite_move_assign scripted_api SQLite_default_ctor \<lparr> db = 7 \<rparr> (scripted_world [])
     = (Completed (\<lparr> db = 7 \<rparr>, \<lparr> db = nullptr \<rparr>), scripted_world []) \<and>
   SQLite_call scripted_api \<lparr> db = nullptr \<rparr> (C_exec ''SELECT 1'') (scripted_world [])
     = (Inl (OtherError ''SQLite database connection not initialized''), \<lparr> db = nullptr \<rparr>, scripted_world [])"
proof -
  note t = moved_from_is_uninitialized [of "\<lparr> stmt = 7, columnIndices = [''id'' \<mapsto> 0, ''name'' \<mapsto> 1, ''id'' \<mapsto> 2] \<rparr>" scripted_api "scripted_world []" Map.empty
              Statement_default_ctor "scripted_world []" "\<lparr> db = 7 \<rparr>" SQLite_default_ctor]
  have ma: "Statement_move_assign scripted_api Map.empty Statement_default_ctor \<lparr> stmt = 7, columnIndices = [''id'' \<mapsto> 0, ''name'' \<mapsto> 1, ''id'' \<mapsto> 2] \<rparr> (scripted_world [])
     = (Completed (\<lparr> stmt = 7, columnIndices = [''id'' \<mapsto> 0, ''name'' \<mapsto> 1, ''id'' \<mapsto> 2] \<rparr>, \<lparr> stmt = nullptr, columnIndices = Map.empty \<rparr>), scripted_world [])"
    by (simp add: Statement_move_assign_def Statement_finalize_def Statement_default_ctor_def)
  have ca: "SQLite_move_assign scripted_api SQLite_default_ctor \<lparr> db = 7 \<rparr> (scripted_world [])
     = (Completed (\<lparr> db = 7 \<rparr>, \<lparr> db = nullptr \<rparr>), scripted_world [])"
    by (simp add: SQLite_move_assign_def SQLite_close_def SQLite_default_ctor_def)
  have s1: "Statement_call False scripted_api (snd (Statement_move_ctor \<lparr> stmt = 7, columnIndices = [''id'' \<mapsto> 0, ''name'' \<mapsto> 1, ''id'' \<mapsto> 2] \<rparr>)) S_step (scripted_world [])
     = (Inl statement_not_initialized, snd (Statement_move_ctor \<lparr> stmt = 7, columnIndices = [''id'' \<mapsto> 0, ''name'' \<mapsto> 1, ''id'' \<mapsto> 2] \<rparr>), scripted_world [])"
    by (rule t [THEN conjunct1, THEN conjunct2, THEN conjunct1, rule_format]) simp
  have s2: "Statement_call False scripted_api \<lparr> stmt = nullptr, columnIndices = Map.empty \<rparr> (S_getInt 0) (scripted_world [])
     = (Inl statement_not_initialized, \<lparr> stmt = nullptr, columnIndices = Map.empty \<rparr>, scripted_world [])"
    by (rule t [THEN conjunct2, THEN conjunct1, rule_format, OF ma, THEN conjunct2, THEN conjunct1, rule_format]) simp
  have c1: "SQLite_call scripted_api (snd (SQLite_move_ctor \<lparr> db = 7 \<rparr>)) (C_prepare ''SELECT 1'' False) (scripted_world [])
     = (Inl connection_not_initialized, snd (SQLite_move_ctor \<lparr> db = 7 \<rparr>), scripted_world [])"
    by (rule t [THEN conjunct2, THEN conjunct2, THEN conjunct1, THEN conjunct2, THEN conjunct1, rule_format]) simp
  have c2: "SQLite_call scripted_api \<lparr> db = nullptr \<rparr> (C_exec ''SELECT 1'') (scripted_world [])
     = (Inl connection_not_initialized, \<lparr> db = nullptr \<rparr>, scripted_world [])"
    by (rule t [THEN conjunct2, THEN conjunct2, THEN conjunct2, rule_format, OF ca, THEN conjunct2, THEN conjunct1, rule_format]) simp
  show ?thesis
    using t [THEN conjunct1] t [THEN conjunct2, THEN conjunct2, THEN conjunct1] ma ca s1 s2 c1 c2
    by (simp add: statement_not_initialized_def connection_not_initialized_def)
qed

text \<open>
  The claim as stated fails for the uses that do not check the handle: on a statement
  moved from by the move constructor (which copies the map) \<^verbatim>\<open>getColumnIndex\<close> still
  resolves a name, and \<^verbatim>\<open>finalize\<close> and \<^verbatim>\<open>close\<close> on a moved-from object return normally.
\<close>

theorem moved_from_is_uninitialized_counterexample:
  "fst (Statement_ctor scripted_api 1 ''SELECT id, name, id FROM t'' False (scripted_world [])) = Inr \<lparr> stmt = 7, columnIndices = [''id'' \<mapsto> 0, ''name'' \<mapsto> 1, ''id'' \<mapsto> 2] \<rparr> \<and>
   snd (Statement_move_ctor \<lparr> stmt = 7, columnIndices = [''id'' \<mapsto> 0, ''name'' \<mapsto> 1, ''id'' \<mapsto> 2] \<rparr>) = \<lparr> stmt = nullptr, columnIndices = [''id'' \<mapsto> 0, ''name'' \<mapsto> 1, ''id'' \<mapsto> 2] \<rparr> \<and>
   fst (Statement_call False scripted_api (snd (Statement_move_ctor \<lparr> stmt = 7, columnIndices = [''id'' \<mapsto> 0, ''name'' \<mapsto> 1, ''id'' \<mapsto> 2] \<rparr>)) (S_getColumnIndex ''id'') (scripted_world []))
     = Inr (RInt 2) \<and>
   Statement_call False scripted_api (snd (Statement_move_ctor \<lparr> stmt = 7, columnIndices = [''id'' \<mapsto> 0, ''name'' \<mapsto> 1, ''id'' \<mapsto> 2] \<rparr>)) S_finalize (scripted_world [])
     = (Inr RVoid, \<lparr> stmt = nullptr, columnIndices = [''id'' \<mapsto> 0, ''name'' \<mapsto> 1, ''id'' \<mapsto> 2] \<rparr>, scripted_world []) \<and>
   SQLite_call scripted_api (snd (SQLite_move_ctor \<lparr> db = 7 \<rparr>)) C_close (scripted_world [])
     = (Inr RVoid, \<lparr> db = nullptr \<rparr>, scripted_world [])"
proof -
  have prepared: "fst (Statement_ctor scripted_api 1 ''SELECT id, name, id FROM t'' False (scripted_world [])) = Inr \<lparr> stmt = 7, columnIndices = [''id'' \<mapsto> 0, ''name'' \<mapsto> 1, ''id'' \<mapsto> 2] \<rparr>"
    by (simp only: scripted_prepare fst_conv)
  show ?thesis
    unfolding prepared
    by (simp add: Statement_move_ctor_def Statement_getColumnIndex_def mutable_call_def
          Statement_finalize_def SQLite_move_ctor_def SQLite_close_def)
qed

subsection \<open>Outcomes\<close>

lemma throws_five_only_simps [simp]:
  "throws_five_only (Inr v)"
  "throws_five_only (Inl e) = five_kinds e"
  by (simp_all add: throws_five_only_def)

lemma raises_simps [simp]:
  "\<not> raises (Inr v)"
  "raises (Inl e) = five_kinds e"
  by (simp_all add: raises_def)

lemma throws_five_only_returning [simp]: "throws_five_only (returning f r) = throws_five_only r"
  by (cases r) simp_all

lemma throwSQLiteError_fst_five [simp]: "five_kinds (fst (throwSQLiteError api h msg sql w))"
  by (rule throwSQLiteError_five_kinds)

lemma call_wrappers_fst [simp]:
  "fst (mutable_call f x) = returning f (fst x)"
  "fst (const_call g obj y) = returning g (fst y)"
  by (simp_all add: mutable_call_def const_call_def case_prod_beta)













lemma Statement_finalize_undefined:
  "\<not> finalize_defined api (engine w) s \<Longrightarrow> fst (Statement_finalize api s w) = Inl UseAfterFree"
  by (auto simp add: Statement_finalize_def finalize_defined_def invoke_def case_prod_beta)






subsection \<open>Failures are raised\<close>



















end
